theory Spec2Isabelle
  imports Main "HOL-Library.Word" "HOL-Library.Multiset" "HOL-Library.AList"
begin

unbundle bit_operations_syntax

section \<open>Shared data of the relay\<close>

text \<open>
  Go pointers are addresses into stores of objects. A ULID is represented by its
  canonical text form, so \<open>ulid.String()\<close> is the identity; a libp2p peer id likewise.
\<close>

type_synonym ulid = string
type_synonym peer_id = string
type_synonym pc_ref = nat
type_synonym dc_ref = nat
type_synonym chan_ref = nat

type_synonym byte = "8 word"

datatype fault = NilDereference | SendOnClosedChannel | CloseOfClosedChannel
  | MakesliceLenOutOfRange | MakesliceCapOutOfRange

subsection \<open>The media engine's objects, as far as the relay drives them\<close>

text \<open>\<open>webrtc.ICECandidateInit\<close> and \<open>webrtc.SessionDescription\<close>.\<close>

record ICECandidateInit =
  Candidate :: string
  SDPMid :: "string option"
  SDPMLineIndex :: "16 word option"
  UsernameFragment :: "string option"

datatype SDPType = SDPTypeUnknown | SDPTypeOffer | SDPTypePranswer | SDPTypeAnswer | SDPTypeRollback

record SessionDescription =
  SDP :: string
  sdType :: SDPType

definition NewSDPType :: "string \<Rightarrow> SDPType" where
  "NewSDPType raw =
     (if raw = ''offer'' then SDPTypeOffer
      else if raw = ''pranswer'' then SDPTypePranswer
      else if raw = ''answer'' then SDPTypeAnswer
      else if raw = ''rollback'' then SDPTypeRollback
      else SDPTypeUnknown)"

fun SDPType_String :: "SDPType \<Rightarrow> string" where
  "SDPType_String SDPTypeOffer = ''offer''"
| "SDPType_String SDPTypePranswer = ''pranswer''"
| "SDPType_String SDPTypeAnswer = ''answer''"
| "SDPType_String SDPTypeRollback = ''rollback''"
| "SDPType_String SDPTypeUnknown = ''unknown''"

text \<open>
  \<open>webrtc.RTPCodecType\<close> and \<open>webrtc.RTPCodecCapability\<close>; an \<open>*rtp.Packet\<close> is an
  address, a \<open>*webrtc.TrackLocalStaticRTP\<close> is the codec, id and stream id it was made from.
\<close>

datatype RTPCodecType = RTPCodecTypeUnknown | RTPCodecTypeAudio | RTPCodecTypeVideo

type_synonym packet_ref = nat

record RTPCodecCapability =
  MimeType :: string
  ClockRate :: "32 word"
  Channels :: "16 word"
  SDPFmtpLine :: string
  RTCPFeedback :: "(string \<times> string) list"

definition zeroCodec :: RTPCodecCapability where
  "zeroCodec = \<lparr>MimeType = [], ClockRate = 0, Channels = 0, SDPFmtpLine = [], RTCPFeedback = []\<rparr>"

type_synonym track = "RTPCodecCapability \<times> string \<times> string"

text \<open>
  A \<open>*webrtc.PeerConnection\<close>: the remote and local description the relay installed,
  the candidates handed to \<open>AddICECandidate\<close> in call order, the tracks added, and
  whether \<open>Close\<close> was called. The relay only logs the errors these calls return.
\<close>

record PeerConn =
  remoteDescription :: "SessionDescription option"
  localDescription :: "SessionDescription option"
  addedCandidates :: "ICECandidateInit list"
  addedTracks :: "track list"
  pcClosed :: bool

definition newPeerConn :: PeerConn where
  "newPeerConn = \<lparr>remoteDescription = None, localDescription = None,
     addedCandidates = [], addedTracks = [], pcClosed = False\<rparr>"

definition AddICECandidate :: "PeerConn \<Rightarrow> ICECandidateInit \<Rightarrow> PeerConn" where
  "AddICECandidate p c = p\<lparr>addedCandidates := addedCandidates p @ [c]\<rparr>"

definition SetRemoteDescription :: "PeerConn \<Rightarrow> SessionDescription \<Rightarrow> PeerConn" where
  "SetRemoteDescription p d = p\<lparr>remoteDescription := Some d\<rparr>"

definition SetLocalDescription :: "PeerConn \<Rightarrow> SessionDescription \<Rightarrow> PeerConn" where
  "SetLocalDescription p d = p\<lparr>localDescription := Some d\<rparr>"

definition AddTrack :: "PeerConn \<Rightarrow> track \<Rightarrow> PeerConn" where
  "AddTrack p t = p\<lparr>addedTracks := addedTracks p @ [t]\<rparr>"

type_synonym pc_store = "pc_ref \<Rightarrow> PeerConn"

text \<open>\<open>webrtc.PeerConnectionState\<close>, which the engine reports to the state callback.\<close>

datatype PeerConnectionState =
    PeerConnectionStateUnknown
  | PeerConnectionStateNew
  | PeerConnectionStateConnecting
  | PeerConnectionStateConnected
  | PeerConnectionStateDisconnected
  | PeerConnectionStateFailed
  | PeerConnectionStateClosed

section \<open>common/ice\_helper.go\<close>

record ICEHelper =
  candidates :: "ICECandidateInit list"
  pc :: "pc_ref option"

definition NewICEHelper :: "pc_ref option \<Rightarrow> ICEHelper" where
  "NewICEHelper p = \<lparr>candidates = [], pc = p\<rparr>"

definition SetPeerConnection :: "ICEHelper \<Rightarrow> pc_ref option \<Rightarrow> ICEHelper" where
  "SetPeerConnection ice p = ice\<lparr>pc := p\<rparr>"

text \<open>The \<open>range\<close> loop of \<open>FlushHeldCandidates\<close> over the held candidates.\<close>

fun addHeld :: "PeerConn \<Rightarrow> ICECandidateInit list \<Rightarrow> PeerConn" where
  "addHeld p [] = p"
| "addHeld p (heldCandidate # rest) = addHeld (AddICECandidate p heldCandidate) rest"

definition FlushHeldCandidates :: "pc_store \<times> ICEHelper \<Rightarrow> pc_store \<times> ICEHelper" where
  "FlushHeldCandidates s =
     (case s of (pcs, ice) \<Rightarrow>
        (case pc ice of
           Some p \<Rightarrow>
             if length (candidates ice) > 0
             then (pcs(p := addHeld (pcs p) (candidates ice)), ice\<lparr>candidates := []\<rparr>)
             else (pcs, ice)
         | None \<Rightarrow> (pcs, ice)))"

definition AddCandidate :: "pc_store \<times> ICEHelper \<Rightarrow> ICECandidateInit \<Rightarrow> pc_store \<times> ICEHelper" where
  "AddCandidate s c =
     (case s of (pcs, ice) \<Rightarrow>
        (case pc ice of
           Some p \<Rightarrow>
             if remoteDescription (pcs p) \<noteq> None
             then FlushHeldCandidates (pcs(p := AddICECandidate (pcs p) c), ice)
             else (pcs, ice\<lparr>candidates := candidates ice @ [c]\<rparr>)
         | None \<Rightarrow> (pcs, ice)))"

text \<open>Delivering a sequence of candidates, one \<open>AddCandidate\<close> call each.\<close>

fun deliver :: "pc_store \<times> ICEHelper \<Rightarrow> ICECandidateInit list \<Rightarrow> pc_store \<times> ICEHelper" where
  "deliver s [] = s"
| "deliver s (c # cs) = deliver (AddCandidate s c) cs"

text \<open>Installing the remote description on a stored peer connection.\<close>

definition installRemote :: "pc_ref \<Rightarrow> SessionDescription \<Rightarrow> pc_store \<times> ICEHelper \<Rightarrow> pc_store \<times> ICEHelper" where
  "installRemote p d s = (case s of (pcs, ice) \<Rightarrow> (pcs(p := SetRemoteDescription (pcs p) d), ice))"

text \<open>
  What the relay does with a helper once \<open>NewICEHelper\<close> has made it. The stream
  handlers are its only users: they add candidates (protocol\_stream.go lines 353 and
  472), flush (lines 374 and 622), and attach the peer connection that
  \<open>CreatePeerConnection\<close> has just returned without error (lines 179 and 504), so
  \<open>SetPeerConnection\<close> is never called with nil. Between these calls the handlers
  and the media engine change the peer connections in any way.
\<close>

datatype helperCall =
    CallAddCandidate ICECandidateInit
  | CallFlushHeldCandidates
  | CallSetPeerConnection pc_ref
  | EngineChange "pc_store \<Rightarrow> pc_store"

fun helperCalls :: "pc_store \<times> ICEHelper \<Rightarrow> helperCall list \<Rightarrow> pc_store \<times> ICEHelper" where
  "helperCalls s [] = s"
| "helperCalls s (CallAddCandidate c # rest) = helperCalls (AddCandidate s c) rest"
| "helperCalls s (CallFlushHeldCandidates # rest) = helperCalls (FlushHeldCandidates s) rest"
| "helperCalls s (CallSetPeerConnection p # rest) =
     helperCalls (case s of (pcs, ice) \<Rightarrow> (pcs, SetPeerConnection ice (Some p))) rest"
| "helperCalls s (EngineChange g # rest) =
     helperCalls (case s of (pcs, ice) \<Rightarrow> (g pcs, ice)) rest"

section \<open>shared/room.go and the participant it fans out to\<close>

text \<open>
  The sources hold two definitions of \<open>Room\<close>. The one modelled is the one with the
  atomic slice of participant channels and \<open>BroadcastPacket\<close>, which is the one the
  stream handlers call.
\<close>

record participantPacket =
  kind :: RTPCodecType
  packet :: packet_ref

text \<open>
  A buffered Go channel of packet wrappers: its capacity, the wrappers queued, and
  whether \<open>close\<close> was called on it.
\<close>

record channel =
  chanCap :: nat
  chanBuf :: "participantPacket list"
  chanClosed :: bool

type_synonym chan_store = "chan_ref \<Rightarrow> channel"

text \<open>\<open>participantPacketPool\<close>: how many wrappers were taken from and put back into it.\<close>

record pool =
  poolGets :: nat
  poolPuts :: nat

record Participant =
  P_ID :: ulid
  SessionID :: string
  PeerID :: peer_id
  P_PeerConnection :: "pc_ref option"
  P_DataChannel :: "dc_ref option"
  VideoTrack :: "track option"
  AudioTrack :: "track option"
  VideoSequenceNumber :: "16 word"
  VideoTimestamp :: "32 word"
  AudioSequenceNumber :: "16 word"
  AudioTimestamp :: "32 word"
  packetQueue :: chan_ref
  closeOnce :: bool

record Room =
  ID :: ulid
  Name :: string
  OwnerID :: peer_id
  AudioCodec :: RTPCodecCapability
  VideoCodec :: RTPCodecCapability
  PeerConnection :: "pc_ref option"
  DataChannel :: "dc_ref option"
  participantChannels :: "chan_ref list"
  Participants :: "ulid \<rightharpoonup> Participant"
  LastVideoTimestamp :: "32 word"
  LastVideoSequenceNumber :: "16 word"
  LastAudioTimestamp :: "32 word"
  LastAudioSequenceNumber :: "16 word"
  VideoTimestampSet :: bool
  VideoSequenceSet :: bool
  AudioTimestampSet :: bool
  AudioSequenceSet :: bool

definition NewRoom :: "string \<Rightarrow> ulid \<Rightarrow> peer_id \<Rightarrow> Room" where
  "NewRoom name roomID ownerID =
     \<lparr>ID = roomID, Name = name, OwnerID = ownerID,
      AudioCodec = zeroCodec, VideoCodec = zeroCodec,
      PeerConnection = None, DataChannel = None,
      participantChannels = [], Participants = Map.empty,
      LastVideoTimestamp = 0, LastVideoSequenceNumber = 0,
      LastAudioTimestamp = 0, LastAudioSequenceNumber = 0,
      VideoTimestampSet = False, VideoSequenceSet = False,
      AudioTimestampSet = False, AudioSequenceSet = False\<rparr>"

text \<open>
  \<open>NewParticipant\<close> makes the queue with room for 1000 wrappers at a fresh address;
  \<open>common.NewULID\<close> is not part of the sources, its result is an input.
\<close>

definition packetQueueDepth :: nat where
  "packetQueueDepth = 1000"

definition newChannel :: "nat \<Rightarrow> channel" where
  "newChannel n = \<lparr>chanCap = n, chanBuf = [], chanClosed = False\<rparr>"

definition NewParticipant ::
  "ulid option \<Rightarrow> chan_ref \<Rightarrow> string \<Rightarrow> peer_id \<Rightarrow> chan_store \<Rightarrow> (Participant \<times> chan_store) option" where
  "NewParticipant newULID fresh sessionID peerID chans =
     (case newULID of
        None \<Rightarrow> None
      | Some uid \<Rightarrow>
          Some (\<lparr>P_ID = uid, SessionID = sessionID, PeerID = peerID,
                 P_PeerConnection = None, P_DataChannel = None,
                 VideoTrack = None, AudioTrack = None,
                 VideoSequenceNumber = 0, VideoTimestamp = 0,
                 AudioSequenceNumber = 0, AudioTimestamp = 0,
                 packetQueue = fresh, closeOnce = False\<rparr>,
                chans(fresh := newChannel packetQueueDepth)))"

text \<open>
  A \<open>NestriDataChannel\<close> (connections/datachannel.go): the callbacks registered by
  payload type (a callback is named by a number), whether it was closed, and the binary
  messages sent on it.
\<close>

type_synonym callback = nat

record NestriDataChannel =
  callbacks :: "string \<rightharpoonup> callback"
  dcClosed :: bool
  dcSent :: "byte list list"

type_synonym dc_store = "dc_ref \<Rightarrow> NestriDataChannel"

definition closePC :: "PeerConn \<Rightarrow> PeerConn" where
  "closePC p = p\<lparr>pcClosed := True\<rparr>"

definition closeDC :: "NestriDataChannel \<Rightarrow> NestriDataChannel" where
  "closeDC d = d\<lparr>dcClosed := True\<rparr>"

text \<open>
  \<open>Participant.Close\<close> (common/common.go): the queue is closed once (closing a
  closed channel panics, \<open>closeOnce\<close> keeps that from happening), then the data
  channel and the peer connection are closed and the fields cleared.
\<close>

definition closeChan :: "chan_store \<Rightarrow> chan_ref \<Rightarrow> fault + chan_store" where
  "closeChan cs q =
     (if chanClosed (cs q) then Inl CloseOfClosedChannel
      else Inr (cs(q := (cs q)\<lparr>chanClosed := True\<rparr>)))"

definition Participant_Close ::
  "chan_store \<times> dc_store \<times> pc_store \<times> Participant
     \<Rightarrow> fault + (chan_store \<times> dc_store \<times> pc_store \<times> Participant)" where
  "Participant_Close s =
     (case s of (cs, dcs, pcs, p) \<Rightarrow>
        (case (if closeOnce p then Inr (cs, p)
               else (case closeChan cs (packetQueue p) of
                       Inl e \<Rightarrow> Inl e
                     | Inr cs1 \<Rightarrow> Inr (cs1, p\<lparr>closeOnce := True\<rparr>))) of
           Inl e \<Rightarrow> Inl e
         | Inr (cs1, p1) \<Rightarrow>
             (let (dcs1, p2) =
                    (case P_DataChannel p1 of
                       Some d \<Rightarrow> (dcs(d := closeDC (dcs d)), p1\<lparr>P_DataChannel := None\<rparr>)
                     | None \<Rightarrow> (dcs, p1));
                  (pcs1, p3) =
                    (case P_PeerConnection p2 of
                       Some q \<Rightarrow> (pcs(q := closePC (pcs q)), p2\<lparr>P_PeerConnection := None\<rparr>)
                     | None \<Rightarrow> (pcs, p2));
                  p4 = p3\<lparr>VideoTrack := None, AudioTrack := None\<rparr>
              in Inr (cs1, dcs1, pcs1, p4))))"

text \<open>\<open>Room.Close\<close>: the errors of the two \<open>Close\<close> calls are only logged.\<close>

definition Room_Close :: "dc_store \<times> pc_store \<times> Room \<Rightarrow> dc_store \<times> pc_store \<times> Room" where
  "Room_Close s =
     (case s of (dcs, pcs, r) \<Rightarrow>
        (let (dcs1, r1) =
               (case DataChannel r of
                  Some d \<Rightarrow> (dcs(d := closeDC (dcs d)), r\<lparr>DataChannel := None\<rparr>)
                | None \<Rightarrow> (dcs, r));
             (pcs1, r2) =
               (case PeerConnection r1 of
                  Some p \<Rightarrow> (pcs(p := closePC (pcs p)), r1\<lparr>PeerConnection := None\<rparr>)
                | None \<Rightarrow> (pcs, r1))
         in (dcs1, pcs1, r2)))"

definition AddParticipant :: "Room \<Rightarrow> Participant \<Rightarrow> Room" where
  "AddParticipant r participant =
     (let r1 = r\<lparr>Participants := (Participants r)(P_ID participant \<mapsto> participant)\<rparr>;
          current = participantChannels r1;
          newChannels = current @ [packetQueue participant]
      in r1\<lparr>participantChannels := newChannels\<rparr>)"

text \<open>
  \<open>RemoveParticipantByID\<close> makes the new slice with capacity \<open>len(*current)-1\<close>, which
  panics when the current slice is empty.
\<close>

definition RemoveParticipantByID :: "Room \<Rightarrow> ulid \<Rightarrow> fault + Room" where
  "RemoveParticipantByID r pID =
     (case Participants r pID of
        None \<Rightarrow> Inr r
      | Some participant \<Rightarrow>
          (let r1 = r\<lparr>Participants := (Participants r)(pID := None)\<rparr>;
               current = participantChannels r1
           in if length current = 0 then Inl MakesliceCapOutOfRange
              else (let newChannels = filter (\<lambda>ch. ch \<noteq> packetQueue participant) current
                    in Inr (r1\<lparr>participantChannels := newChannels\<rparr>))))"

definition IsOnline :: "Room \<Rightarrow> bool" where
  "IsOnline r = (PeerConnection r \<noteq> None)"

text \<open>
  \<open>BroadcastPacket\<close> works on the channels, the wrapper pool and the log: \<open>attempts\<close>
  lists every \<open>select\<close> send with the channel and wrapper, \<open>warnings\<close> the channel
  indices of the "Channel full" warnings. A send on a closed channel panics in Go, also
  inside a \<open>select\<close> with a \<open>default\<close> branch; a buffered channel takes the wrapper
  when it has room, otherwise the \<open>default\<close> branch runs.

  The call first loads the slice without a lock and then works on what it loaded:
  \<open>broadcastTo\<close> is the call from after the load, on the channels as they are when the
  sends happen.
\<close>

record fanout =
  chans :: chan_store
  wrappers :: pool
  attempts :: "(chan_ref \<times> participantPacket) list"
  warnings :: "nat list"

definition poolGet :: "pool \<Rightarrow> pool" where
  "poolGet pl = pl\<lparr>poolGets := Suc (poolGets pl)\<rparr>"

definition poolPut :: "pool \<Rightarrow> pool" where
  "poolPut pl = pl\<lparr>poolPuts := Suc (poolPuts pl)\<rparr>"

definition trySend :: "nat \<Rightarrow> chan_ref \<Rightarrow> participantPacket \<Rightarrow> fanout \<Rightarrow> fault + fanout" where
  "trySend i ch pp f =
     (let c = chans f ch;
          f1 = f\<lparr>attempts := attempts f @ [(ch, pp)]\<rparr>
      in if chanClosed c then Inl SendOnClosedChannel
         else if length (chanBuf c) < chanCap c
         then Inr (f1\<lparr>chans := (chans f1)(ch := c\<lparr>chanBuf := chanBuf c @ [pp]\<rparr>)\<rparr>)
         else Inr (f1\<lparr>warnings := warnings f1 @ [i], wrappers := poolPut (wrappers f1)\<rparr>))"

fun broadcastLoop ::
  "RTPCodecType \<Rightarrow> packet_ref \<Rightarrow> nat \<Rightarrow> chan_ref list \<Rightarrow> fanout \<Rightarrow> fault + fanout" where
  "broadcastLoop k pkt i [] f = Inr f"
| "broadcastLoop k pkt i (ch # rest) f =
     (let f1 = f\<lparr>wrappers := poolGet (wrappers f)\<rparr>;
          pp = \<lparr>kind = k, packet = pkt\<rparr>
      in case trySend i ch pp f1 of
           Inl e \<Rightarrow> Inl e
         | Inr f2 \<Rightarrow> broadcastLoop k pkt (Suc i) rest f2)"

definition broadcastTo :: "chan_ref list \<Rightarrow> RTPCodecType \<Rightarrow> packet_ref \<Rightarrow> fanout \<Rightarrow> fault + fanout" where
  "broadcastTo channels k pkt f =
     (if length channels = 0 then Inr f
      else broadcastLoop k pkt 0 channels f)"

definition BroadcastPacket :: "Room \<Rightarrow> RTPCodecType \<Rightarrow> packet_ref \<Rightarrow> fanout \<Rightarrow> fault + fanout" where
  "BroadcastPacket r k pkt f =
     (let channels = participantChannels r
      in broadcastTo channels k pkt f)"

text \<open>How many wrappers sit in the queues of the channels in \<open>S\<close>.\<close>

definition queued :: "chan_ref set \<Rightarrow> fanout \<Rightarrow> nat" where
  "queued S f = (\<Sum>x\<in>S. length (chanBuf (chans f x)))"

section \<open>The protocol frame\<close>

text \<open>
  Modelled from the spec: the generated package \<open>relay/internal/proto\<close> is not part of
  the sources. A \<open>ProtoMessage\<close> is a header (payload kind, optional latency tracker) and
  a payload that is one of sdp, ice, client-request-room-stream, server-push-stream, raw;
  the fields are those the relay reads and writes. A nil message pointer is \<open>None\<close>.
\<close>

record RTCIceCandidateInit =
  rtcCandidate :: string
  SdpMLineIndex :: "32 word option"
  SdpMid :: "string option"
  rtcUsernameFragment :: "string option"

record RTCSessionDescriptionInit =
  Sdp :: string
  Type :: string

datatype payload =
    ProtoSDP "RTCSessionDescriptionInit option"
  | ProtoICE "RTCIceCandidateInit option"
  | ProtoClientRequestRoomStream string string
  | ProtoServerPushStream string
  | ProtoRaw string

record ProtoLatencyTracker =
  SequenceId :: string
  Timestamps :: "(string \<times> nat) list"

record ProtoMessageBase =
  PayloadType :: string
  Latency :: "ProtoLatencyTracker option"

record ProtoMessage =
  MessageBase :: "ProtoMessageBase option"
  Payload :: "payload option"

text \<open>The generated getters: the payload if it is of the asked kind, else nil.\<close>

definition GetSdp :: "ProtoMessage \<Rightarrow> RTCSessionDescriptionInit option option" where
  "GetSdp m = (case Payload m of Some (ProtoSDP d) \<Rightarrow> Some d | _ \<Rightarrow> None)"

definition GetIce :: "ProtoMessage \<Rightarrow> RTCIceCandidateInit option option" where
  "GetIce m = (case Payload m of Some (ProtoICE c) \<Rightarrow> Some c | _ \<Rightarrow> None)"

definition GetClientRequestRoomStream :: "ProtoMessage \<Rightarrow> (string \<times> string) option" where
  "GetClientRequestRoomStream m =
     (case Payload m of Some (ProtoClientRequestRoomStream roomName sessionId) \<Rightarrow> Some (roomName, sessionId)
      | _ \<Rightarrow> None)"

definition GetServerPushStream :: "ProtoMessage \<Rightarrow> string option" where
  "GetServerPushStream m = (case Payload m of Some (ProtoServerPushStream roomName) \<Rightarrow> Some roomName | _ \<Rightarrow> None)"

section \<open>common/safebufio.go\<close>

datatype io_error = EOF | ErrUnexpectedEOF | errOverflow | ErrReset | ErrWrite | ErrProto

definition MaxVarintLen64 :: nat where
  "MaxVarintLen64 = 10"

text \<open>
  \<open>binary.PutUvarint\<close> and \<open>binary.ReadUvarint\<close> of the Go library, on \<open>uint64\<close>:
  seven bits per byte, low groups first, the top bit of a byte set when more follow.
\<close>

function PutUvarint :: "64 word \<Rightarrow> byte list" where
  "PutUvarint x = (if x \<ge> 0x80 then (ucast x OR 0x80) # PutUvarint (drop_bit 7 x) else [ucast x])"
  by pat_completeness auto
termination
proof (relation "measure unat")
  show "wf (measure unat)" by simp
next
  fix x :: "64 word"
  assume "0x80 \<le> x"
  then have "0 < unat x" by (simp add: word_le_nat_alt)
  then have "unat x div 128 < unat x" by (rule div_less_dividend [rotated]) simp
  then show "(drop_bit 7 x, x) \<in> measure unat"
    by (simp add: drop_bit_eq_div unat_div_distrib)
qed

declare PutUvarint.simps [simp del]

fun ReadUvarintLoop :: "nat \<Rightarrow> 64 word \<Rightarrow> nat \<Rightarrow> byte list \<Rightarrow> io_error + (64 word \<times> byte list)" where
  "ReadUvarintLoop i x s [] =
     (if i < MaxVarintLen64 then Inl (if i > 0 then ErrUnexpectedEOF else EOF) else Inl errOverflow)"
| "ReadUvarintLoop i x s (b # r) =
     (if i < MaxVarintLen64 then
        (if b < 0x80 then
           (if i = MaxVarintLen64 - 1 \<and> b > 1 then Inl errOverflow
            else Inr (x OR push_bit s (ucast b), r))
         else ReadUvarintLoop (Suc i) (x OR push_bit s (ucast (b AND 0x7f))) (s + 7) r)
      else Inl errOverflow)"

definition readUvarint :: "byte list \<Rightarrow> io_error + (64 word \<times> byte list)" where
  "readUvarint r = ReadUvarintLoop 0 0 0 r"

text \<open>
  The buffered writer: the bytes written so far, and whether the stream under it is
  broken (then every write fails). \<open>io.ReadFull\<close> takes exactly \<open>n\<close> bytes or fails.
\<close>

record writer =
  written :: "byte list"
  broken :: bool

definition Write :: "writer \<Rightarrow> byte list \<Rightarrow> io_error option \<times> writer" where
  "Write w bs = (if broken w then (Some ErrWrite, w) else (None, w\<lparr>written := written w @ bs\<rparr>))"

definition writeUvarint :: "writer \<Rightarrow> 64 word \<Rightarrow> io_error option \<times> writer" where
  "writeUvarint w x = Write w (PutUvarint x)"

definition Flush :: "writer \<Rightarrow> io_error option" where
  "Flush w = (if broken w then Some ErrWrite else None)"

definition ReadFull :: "nat \<Rightarrow> byte list \<Rightarrow> io_error + (byte list \<times> byte list)" where
  "ReadFull n r =
     (if n \<le> length r then Inr (take n r, drop n r)
      else Inl (if r = [] then EOF else ErrUnexpectedEOF))"

text \<open>
  \<open>proto.Marshal\<close> and \<open>proto.Unmarshal\<close> belong to the protobuf library and are
  parameters. \<open>make([]byte, length)\<close> panics ("makeslice: len out of range") when the
  length does not fit an \<open>int\<close>, and when it is beyond what the Go runtime allocates
  at all. That limit is a constant of the runtime, not of the sources, and is the
  parameter \<open>limit\<close>; on 64-bit Linux it is \<open>maxAlloc\<close>, \<open>1 << 48\<close> bytes. No
  slice is longer than the limit. An allocation within it is taken to succeed, like
  every other allocation of the program.
\<close>

definition maxAlloc :: nat where
  "maxAlloc = 2 ^ 48"

definition SendProto :: "('m \<Rightarrow> io_error + byte list) \<Rightarrow> 'm \<Rightarrow> writer \<Rightarrow> io_error option \<times> writer" where
  "SendProto marshal msg bu =
     (case marshal msg of
        Inl err \<Rightarrow> (Some err, bu)
      | Inr protoData \<Rightarrow>
          (case writeUvarint bu (of_nat (length protoData)) of
             (Some err, bu1) \<Rightarrow> (Some err, bu1)
           | (None, bu1) \<Rightarrow>
               (case Write bu1 protoData of
                  (Some err, bu2) \<Rightarrow> (Some err, bu2)
                | (None, bu2) \<Rightarrow> (Flush bu2, bu2))))"

definition ReceiveProto ::
  "nat \<Rightarrow> (byte list \<Rightarrow> io_error + 'm) \<Rightarrow> byte list \<Rightarrow> fault + (io_error + ('m \<times> byte list))" where
  "ReceiveProto limit unmarshal r =
     (case readUvarint r of
        Inl err \<Rightarrow> Inr (Inl err)
      | Inr (len, r1) \<Rightarrow>
          if 2 ^ 63 \<le> unat len \<or> limit < unat len then Inl MakesliceLenOutOfRange
          else (case ReadFull (unat len) r1 of
                  Inl err \<Rightarrow> Inr (Inl err)
                | Inr (data, r2) \<Rightarrow>
                    (case unmarshal data of
                       Inl err \<Rightarrow> Inr (Inl err)
                     | Inr msg \<Rightarrow> Inr (Inr (msg, r2)))))"

record CreateMessageOptions =
  SequenceID :: string
  optLatency :: "ProtoLatencyTracker option"

text \<open>
  \<open>CreateMessage\<close>: the header, then the payload put into the oneof field of its kind.
  Every payload of the model has a field in the oneof, so the search through the
  fields succeeds; \<open>now\<close> is the reading of the clock.
\<close>

definition CreateMessage ::
  "nat \<Rightarrow> payload \<Rightarrow> string \<Rightarrow> CreateMessageOptions option \<Rightarrow> string + ProtoMessage" where
  "CreateMessage now pl payloadType opts =
     (let lat =
        (case opts of
           None \<Rightarrow> None
         | Some opt \<Rightarrow>
             (case optLatency opt of
                Some l \<Rightarrow> Some l
              | None \<Rightarrow>
                  if SequenceID opt \<noteq> []
                  then Some \<lparr>SequenceId = SequenceID opt, Timestamps = [(''created'', now)]\<rparr>
                  else None))
      in Inr \<lparr>MessageBase = Some \<lparr>PayloadType = payloadType, Latency = lat\<rparr>, Payload = Some pl\<rparr>)"

section \<open>connections/datachannel.go\<close>

record DataChannelMessage =
  IsString :: bool
  Data :: "byte list"

text \<open>
  The \<open>OnMessage\<close> handler installed by \<open>NewNestriDataChannel\<close>: the data channel after
  the message, the callbacks started (each with the raw message as its argument), and
  the errors logged.
\<close>

definition onMessage ::
  "(byte list \<Rightarrow> io_error + ProtoMessage) \<Rightarrow> NestriDataChannel \<Rightarrow> DataChannelMessage
     \<Rightarrow> NestriDataChannel \<times> (callback \<times> byte list) list \<times> string list" where
  "onMessage unmarshal ndc msg =
     (if IsString msg then (ndc, [], [])
      else case unmarshal (Data msg) of
             Inl err \<Rightarrow> (ndc, [], [''failed to decode binary DataChannel message''])
           | Inr base \<Rightarrow>
               (case MessageBase base of
                  Some mb \<Rightarrow>
                    if length (PayloadType mb) > 0
                    then (case callbacks ndc (PayloadType mb) of
                            Some cb \<Rightarrow> (ndc, [(cb, Data msg)], [])
                          | None \<Rightarrow> (ndc, [], []))
                    else (ndc, [], [])
                | None \<Rightarrow> (ndc, [], [])))"

definition NewNestriDataChannel :: NestriDataChannel where
  "NewNestriDataChannel = \<lparr>callbacks = Map.empty, dcClosed = False, dcSent = []\<rparr>"

definition SendBinary :: "NestriDataChannel \<Rightarrow> byte list \<Rightarrow> NestriDataChannel" where
  "SendBinary ndc d = ndc\<lparr>dcSent := dcSent ndc @ [d]\<rparr>"

definition RegisterMessageCallback :: "NestriDataChannel \<Rightarrow> string \<Rightarrow> callback \<Rightarrow> NestriDataChannel" where
  "RegisterMessageCallback ndc msgType cb = ndc\<lparr>callbacks := (callbacks ndc)(msgType \<mapsto> cb)\<rparr>"

definition UnregisterMessageCallback :: "NestriDataChannel \<Rightarrow> string \<Rightarrow> NestriDataChannel" where
  "UnregisterMessageCallback ndc msgType = ndc\<lparr>callbacks := (callbacks ndc)(msgType := None)\<rparr>"

section \<open>core/protocol\_stream.go: the stream handlers\<close>

text \<open>
  What the handlers work on: the relay (its id, the room registry, the rooms), the stores
  of peer connections, data channels and participant queues with the next free address,
  the connection maps of the stream protocol, and the participants made so far.
\<close>

type_synonym room_ref = nat

record StreamConnection =
  sc_pc :: pc_ref
  sc_ndc :: "dc_ref option"

record world =
  relayID :: peer_id
  LocalRooms :: "(ulid \<times> room_ref) list"
  rooms :: "room_ref \<Rightarrow> Room"
  pcStore :: pc_store
  dcStore :: dc_store
  chanStore :: chan_store
  nextRef :: nat
  servedConns :: "string \<rightharpoonup> (peer_id \<rightharpoonup> StreamConnection)"
  incomingConns :: "string \<rightharpoonup> StreamConnection"
  madeParticipants :: "Participant list"

text \<open>
  One stream and the local variables of its handler: the remote peer, \<open>room\<close> (push
  handler), \<open>currentRoomName\<close> (request handler), the candidate helper, every frame
  handed to \<open>SendProto\<close> with whether the send succeeded, whether the stream was reset,
  and the errors and warnings logged.
\<close>

record stream =
  remotePeer :: peer_id
  room :: "room_ref option"
  currentRoomName :: string
  iceHelper :: ICEHelper
  sent :: "(ProtoMessage \<times> bool) list"
  streamReset :: bool
  logged :: "string list"

text \<open>
  What the libraries answer while one frame is handled: the clock, the ULIDs generated
  (\<open>None\<close> when generation fails), whether the first and second \<open>SendProto\<close> of the
  frame succeed, and the outcome of each call into the media engine.
\<close>

record ext =
  clock :: nat
  newULID :: "ulid option"
  roomULID :: ulid
  participantULID :: "ulid option"
  sendOK1 :: bool
  sendOK2 :: bool
  createPeerConnectionOK :: bool
  newTrackAudioOK :: bool
  newTrackVideoOK :: bool
  createDataChannelOK :: bool
  createOffer :: "SessionDescription option"
  createAnswer :: "SessionDescription option"
  setLocalDescriptionOK :: bool
  setRemoteDescriptionOK :: bool

datatype 'a step = Continue 'a | Return 'a | Panic fault

datatype recv = Frame ProtoMessage ext | Closed | Failed | Oversized

definition logMsg :: "string \<Rightarrow> stream \<Rightarrow> stream" where
  "logMsg m st = st\<lparr>logged := logged st @ [m]\<rparr>"

definition sendFrame :: "ProtoMessage \<Rightarrow> bool \<Rightarrow> stream \<Rightarrow> stream" where
  "sendFrame m ok st = st\<lparr>sent := sent st @ [(m, ok)]\<rparr>"

text \<open>
  Modelled from the spec: the relay's room registry (\<open>GetRoomByName\<close>, \<open>CreateRoom\<close>)
  is not part of the sources. \<open>get-by-name(name)\<close> gives the local room of that name
  or nil; \<open>create(name)\<close> makes a room of that name owned by this relay, offline, under a
  new id, and registers it.
\<close>

definition GetRoomByName :: "world \<Rightarrow> string \<Rightarrow> room_ref option" where
  "GetRoomByName w name = find (\<lambda>r. Name (rooms w r) = name) (map snd (LocalRooms w))"

definition CreateRoom :: "world \<Rightarrow> ulid \<Rightarrow> string \<Rightarrow> world \<times> room_ref" where
  "CreateRoom w roomID name =
     (let r = nextRef w
      in (w\<lparr>nextRef := Suc r,
            rooms := (rooms w)(r := NewRoom name roomID (relayID w)),
            LocalRooms := AList.update roomID r (LocalRooms w)\<rparr>, r))"

subsection \<open>handleStreamPush\<close>

definition pushStreamOK :: "ext \<Rightarrow> string \<Rightarrow> world \<times> stream \<Rightarrow> (world \<times> stream) step" where
  "pushStreamOK x roomName s =
     (case s of (w, st) \<Rightarrow>
        (case CreateMessage (clock x) (ProtoServerPushStream roomName) ''push-stream-ok'' None of
           Inl err \<Rightarrow> Continue (w, logMsg ''Failed to create proto message'' st)
         | Inr resMsg \<Rightarrow>
             if sendOK1 x then Continue (w, sendFrame resMsg True st)
             else Continue (w, logMsg ''Failed to send push stream OK response''
                                 (sendFrame resMsg False st))))"

definition pushStreamRoom :: "ext \<Rightarrow> ProtoMessage \<Rightarrow> world \<times> stream \<Rightarrow> (world \<times> stream) step" where
  "pushStreamRoom x msgWrapper s =
     (case s of (w, st) \<Rightarrow>
        (case GetServerPushStream msgWrapper of
           None \<Rightarrow> Continue (w, logMsg ''Failed to GetServerPushStream in push-stream-room'' st)
         | Some roomName \<Rightarrow>
             (case GetRoomByName w roomName of
                Some r \<Rightarrow>
                  (let st1 = st\<lparr>room := Some r\<rparr>
                   in if OwnerID (rooms w r) \<noteq> relayID w
                      then Continue (w, logMsg ''Cannot push a stream to non-owned room'' st1)
                      else if IsOnline (rooms w r)
                      then Continue (w, logMsg ''Cannot push a stream to already online room'' st1)
                      else pushStreamOK x roomName (w, st1))
              | None \<Rightarrow>
                  (case CreateRoom w (roomULID x) roomName of
                     (w1, r) \<Rightarrow> pushStreamOK x roomName (w1, st\<lparr>room := Some r\<rparr>)))))"

definition pushIceCandidate :: "ProtoMessage \<Rightarrow> world \<times> stream \<Rightarrow> (world \<times> stream) step" where
  "pushIceCandidate msgWrapper s =
     (case s of (w, st) \<Rightarrow>
        (case GetIce msgWrapper of
           None \<Rightarrow> Continue (w, logMsg ''Failed to GetIce in pushed stream ice-candidate'' st)
         | Some iceMsgCandidate \<Rightarrow>
             (case iceMsgCandidate of
                None \<Rightarrow> Panic NilDereference
              | Some c \<Rightarrow>
                  (case SdpMLineIndex c of
                     None \<Rightarrow> Panic NilDereference
                   | Some idx \<Rightarrow>
                       (let smollified = (ucast idx :: 16 word);
                            cand = \<lparr>Candidate = rtcCandidate c, SDPMid = SdpMid c,
                                    SDPMLineIndex = Some smollified,
                                    UsernameFragment = rtcUsernameFragment c\<rparr>
                        in case AddCandidate (pcStore w, iceHelper st) cand of
                             (pcs', ice') \<Rightarrow> Continue (w\<lparr>pcStore := pcs'\<rparr>, st\<lparr>iceHelper := ice'\<rparr>))))))"

text \<open>
  The offer of a pushed stream. The callbacks registered on the new peer connection
  (\<open>OnDataChannel\<close>, \<open>OnICECandidate\<close>, \<open>OnTrack\<close>) run later, from the media engine,
  and are not part of handling the frame.
\<close>

definition pushAnswer :: "ext \<Rightarrow> room_ref \<Rightarrow> pc_ref \<Rightarrow> world \<times> stream \<Rightarrow> (world \<times> stream) step" where
  "pushAnswer x r p s =
     (case s of (w, st) \<Rightarrow>
        (case createAnswer x of
           None \<Rightarrow> Continue (w, logMsg ''Failed to create answer for pushed stream'' st)
         | Some answer \<Rightarrow>
             if \<not> setLocalDescriptionOK x
             then Continue (w, logMsg ''Failed to set local description for pushed stream'' st)
             else (let w1 = w\<lparr>pcStore := (pcStore w)(p := SetLocalDescription (pcStore w p) answer)\<rparr>
                   in case CreateMessage (clock x)
                             (ProtoSDP (Some \<lparr>Sdp = SDP answer, Type = SDPType_String (sdType answer)\<rparr>))
                             ''answer'' None of
                        Inl err \<Rightarrow> Continue (w1, logMsg ''Failed to create proto message'' st)
                      | Inr answerMsg \<Rightarrow>
                          (let st1 = (if sendOK1 x then sendFrame answerMsg True st
                                      else logMsg ''Failed to send answer for pushed stream''
                                             (sendFrame answerMsg False st));
                               w2 = w1\<lparr>incomingConns := (incomingConns w1)
                                      (Name (rooms w1 r) \<mapsto> \<lparr>sc_pc = p, sc_ndc = DataChannel (rooms w1 r)\<rparr>)\<rparr>
                           in Continue (w2, st1)))))"

definition pushOffer :: "ext \<Rightarrow> ProtoMessage \<Rightarrow> world \<times> stream \<Rightarrow> (world \<times> stream) step" where
  "pushOffer x msgWrapper s =
     (case s of (w, st) \<Rightarrow>
        (case room st of
           None \<Rightarrow> Continue (w, logMsg ''Received offer without room set for stream push'' st)
         | Some r \<Rightarrow>
             (case GetSdp msgWrapper of
                None \<Rightarrow> Continue (w, st)
              | Some offerMsgSdp \<Rightarrow>
                  (case offerMsgSdp of
                     None \<Rightarrow> Panic NilDereference
                   | Some d \<Rightarrow>
                       (let offSdp = \<lparr>SDP = Sdp d, sdType = NewSDPType (Type d)\<rparr>
                        in if \<not> createPeerConnectionOK x
                           then Continue (w, logMsg ''Failed to create PeerConnection for pushed stream'' st)
                           else (let p = nextRef w;
                                     w1 = w\<lparr>nextRef := Suc p,
                                             pcStore := (pcStore w)(p := newPeerConn),
                                             rooms := (rooms w)(r := (rooms w r)\<lparr>PeerConnection := Some p\<rparr>)\<rparr>;
                                     st1 = st\<lparr>iceHelper := SetPeerConnection (iceHelper st) (Some p)\<rparr>
                                 in if \<not> setRemoteDescriptionOK x
                                    then Continue (w1, logMsg ''Failed to set remote description for pushed stream'' st1)
                                    else (let w2 = w1\<lparr>pcStore := (pcStore w1)
                                                     (p := SetRemoteDescription (pcStore w1 p) offSdp)\<rparr>
                                          in case FlushHeldCandidates (pcStore w2, iceHelper st1) of
                                               (pcs', ice') \<Rightarrow>
                                                 pushAnswer x r p
                                                   (w2\<lparr>pcStore := pcs'\<rparr>, st1\<lparr>iceHelper := ice'\<rparr>))))))))"

definition pushFrame :: "ext \<Rightarrow> ProtoMessage \<Rightarrow> world \<times> stream \<Rightarrow> (world \<times> stream) step" where
  "pushFrame x msgWrapper s =
     (case s of (w, st) \<Rightarrow>
        (case MessageBase msgWrapper of
           None \<Rightarrow> Continue (w, logMsg ''No MessageBase in stream push'' st)
         | Some mb \<Rightarrow>
             if PayloadType mb = ''push-stream-room'' then pushStreamRoom x msgWrapper (w, st)
             else if PayloadType mb = ''ice-candidate'' then pushIceCandidate msgWrapper (w, st)
             else if PayloadType mb = ''offer'' then pushOffer x msgWrapper (w, st)
             else Continue (w, st)))"

text \<open>When the push stream ends, the room the handler holds is closed.\<close>

definition pushCleanup :: "world \<times> stream \<Rightarrow> world \<times> stream" where
  "pushCleanup s =
     (case s of (w, st) \<Rightarrow>
        (case room st of
           None \<Rightarrow> (w, st)
         | Some r \<Rightarrow>
             (case Room_Close (dcStore w, pcStore w, rooms w r) of
                (dcs', pcs', r') \<Rightarrow>
                  (w\<lparr>dcStore := dcs', pcStore := pcs', rooms := (rooms w)(r := r'),
                     incomingConns := (incomingConns w)(Name r' := None)\<rparr>, st))))"

text \<open>
  The handler's loop over what \<open>ReceiveProto\<close> does: it returns a frame, the end of
  the stream (EOF or reset by the peer) or another error, or it panics on a length prefix
  beyond the allocation limit (\<open>Oversized\<close>). The result says whether the handler has
  returned (\<open>True\<close>) or waits for the next frame.
\<close>

fun handleStreamPush :: "recv list \<Rightarrow> world \<times> stream \<Rightarrow> fault + (bool \<times> world \<times> stream)" where
  "handleStreamPush [] s = Inr (False, s)"
| "handleStreamPush (Closed # rest) s = Inr (True, pushCleanup s)"
| "handleStreamPush (Failed # rest) s =
     (case s of (w, st) \<Rightarrow>
        Inr (True, pushCleanup (w, (logMsg ''Failed to receive data for stream push'' st)\<lparr>streamReset := True\<rparr>)))"
| "handleStreamPush (Oversized # rest) s = Inl MakesliceLenOutOfRange"
| "handleStreamPush (Frame msgWrapper x # rest) s =
     (case pushFrame x msgWrapper s of
        Continue s' \<Rightarrow> handleStreamPush rest s'
      | Return s' \<Rightarrow> Inr (True, s')
      | Panic e \<Rightarrow> Inl e)"

subsection \<open>handleStreamRequest\<close>

text \<open>\<open>Participant.SetTrack\<close>: the track is stored and added to the peer connection.\<close>

definition SetTrack ::
  "pc_store \<times> Participant \<Rightarrow> RTPCodecType \<Rightarrow> track \<Rightarrow> fault + (pc_store \<times> Participant)" where
  "SetTrack s trackType t =
     (case s of (pcs, p) \<Rightarrow>
        (case trackType of
           RTPCodecTypeAudio \<Rightarrow>
             (case P_PeerConnection p of
                None \<Rightarrow> Inl NilDereference
              | Some q \<Rightarrow> Inr (pcs(q := AddTrack (pcs q) t), p\<lparr>AudioTrack := Some t\<rparr>))
         | RTPCodecTypeVideo \<Rightarrow>
             (case P_PeerConnection p of
                None \<Rightarrow> Inl NilDereference
              | Some q \<Rightarrow> Inr (pcs(q := AddTrack (pcs q) t), p\<lparr>VideoTrack := Some t\<rparr>))
         | RTPCodecTypeUnknown \<Rightarrow> Inr (pcs, p)))"

text \<open>The callbacks of the viewer's data channel, by number.\<close>

definition cbForwardInput :: callback where
  "cbForwardInput = 1"

definition cbForwardControllerInput :: callback where
  "cbForwardControllerInput = 2"

text \<open>
  The rest of a request for an online, locally owned room, from the data channel on.
  The participant \<open>pt\<close> exists by now and is recorded in every outcome.
\<close>

definition serveOffer ::
  "ext \<Rightarrow> string \<Rightarrow> pc_ref \<Rightarrow> Participant \<Rightarrow> world \<times> stream \<Rightarrow> (world \<times> stream) step" where
  "serveOffer x roomName p pt s =
     (case s of (w0, st) \<Rightarrow>
        (let w = w0\<lparr>madeParticipants := madeParticipants w0 @ [pt]\<rparr>
         in if \<not> createDataChannelOK x
            then Continue (w, logMsg ''Failed to create DataChannel for requested stream'' st)
            else (let dc = nextRef w;
                      ndc = RegisterMessageCallback
                              (RegisterMessageCallback NewNestriDataChannel ''input'' cbForwardInput)
                              ''controllerInput'' cbForwardControllerInput;
                      w1 = w\<lparr>nextRef := Suc dc, dcStore := (dcStore w)(dc := ndc)\<rparr>
                  in case createOffer x of
                       None \<Rightarrow> Continue (w1, logMsg ''Failed to create offer for requested stream'' st)
                     | Some offer \<Rightarrow>
                         if \<not> setLocalDescriptionOK x
                         then Continue (w1, logMsg ''Failed to set local description for requested stream'' st)
                         else (let w2 = w1\<lparr>pcStore := (pcStore w1)(p := SetLocalDescription (pcStore w1 p) offer)\<rparr>
                               in case CreateMessage (clock x)
                                         (ProtoSDP (Some \<lparr>Sdp = SDP offer, Type = SDPType_String (sdType offer)\<rparr>))
                                         ''offer'' None of
                                    Inl err \<Rightarrow> Continue (w2, logMsg ''Failed to create proto message'' st)
                                  | Inr offerMsg \<Rightarrow>
                                      if \<not> sendOK2 x
                                      then Continue (w2, logMsg ''Failed to send offer for requested stream''
                                                           (sendFrame offerMsg False st))
                                      else (let roomMap = (case servedConns w2 roomName of
                                                             Some m \<Rightarrow> m
                                                           | None \<Rightarrow> Map.empty);
                                                w3 = w2\<lparr>servedConns := (servedConns w2)
                                                       (roomName \<mapsto> roomMap(remotePeer st \<mapsto>
                                                          \<lparr>sc_pc = p, sc_ndc = Some dc\<rparr>))\<rparr>
                                            in Continue (w3, sendFrame offerMsg True st))))))"

text \<open>
  A request for a room that is online and owned by this relay: peer connection,
  participant, the two tracks, then the data channel and the offer. The connection state
  callback that later adds the participant to the room, or removes and closes it, runs
  from the media engine.
\<close>

definition serveRequest ::
  "ext \<Rightarrow> string \<Rightarrow> string \<Rightarrow> room_ref \<Rightarrow> world \<times> stream \<Rightarrow> (world \<times> stream) step" where
  "serveRequest x roomName sessionID r s =
     (case s of (w, st) \<Rightarrow>
        if \<not> createPeerConnectionOK x
        then Continue (w, logMsg ''Failed to create PeerConnection for requested stream'' st)
        else (let p = nextRef w;
                  w1 = w\<lparr>nextRef := Suc p, pcStore := (pcStore w)(p := newPeerConn)\<rparr>
              in case NewParticipant (participantULID x) (nextRef w1) sessionID (remotePeer st) (chanStore w1) of
                   None \<Rightarrow> Continue (w1, logMsg ''Failed to create participant'' st)
                 | Some (p0, chans1) \<Rightarrow>
                     (let w2 = w1\<lparr>nextRef := Suc (nextRef w1), chanStore := chans1\<rparr>;
                          p1 = p0\<lparr>P_PeerConnection := Some p\<rparr>;
                          st1 = st\<lparr>iceHelper := SetPeerConnection (iceHelper st) (Some p)\<rparr>
                      in if \<not> newTrackAudioOK x
                         then Return (w2\<lparr>madeParticipants := madeParticipants w2 @ [p1]\<rparr>,
                                      logMsg ''Failed to create track for stream request'' st1)
                         else (case SetTrack (pcStore w2, p1) RTPCodecTypeAudio
                                      (AudioCodec (rooms w2 r), ''participant-'' @ P_ID p1,
                                       ''participant-'' @ P_ID p1 @ ''-audio'') of
                                 Inl e \<Rightarrow> Panic e
                               | Inr (pcs3, p2) \<Rightarrow>
                                   if \<not> newTrackVideoOK x
                                   then Return (w2\<lparr>pcStore := pcs3,
                                                    madeParticipants := madeParticipants w2 @ [p2]\<rparr>,
                                                logMsg ''Failed to create track for stream request'' st1)
                                   else (case SetTrack (pcs3, p2) RTPCodecTypeVideo
                                                (VideoCodec (rooms w2 r), ''participant-'' @ P_ID p2,
                                                 ''participant-'' @ P_ID p2 @ ''-video'') of
                                           Inl e \<Rightarrow> Panic e
                                         | Inr (pcs4, p3) \<Rightarrow>
                                             serveOffer x roomName p p3 (w2\<lparr>pcStore := pcs4\<rparr>, st1))))))"

text \<open>
  The callback that \<open>serveRequest\<close> registers with \<open>OnConnectionStateChange\<close>
  (lines 211 to 222), for the room \<open>r\<close> and the participant of the request. When the
  connection is closed, failed or disconnected, the participant is removed from the room
  and then closed; when it is connected, the participant is added to the room. The engine
  runs the callback on a goroutine of its own, beside the one that reads the producer's
  track and calls \<open>BroadcastPacket\<close>.
\<close>

definition onConnectionStateChange ::
  "room_ref \<Rightarrow> PeerConnectionState \<Rightarrow> world \<times> Participant \<Rightarrow> fault + (world \<times> Participant)" where
  "onConnectionStateChange r state s =
     (case s of (w, participant) \<Rightarrow>
        if state = PeerConnectionStateClosed \<or> state = PeerConnectionStateFailed
           \<or> state = PeerConnectionStateDisconnected
        then (case RemoveParticipantByID (rooms w r) (P_ID participant) of
                Inl e \<Rightarrow> Inl e
              | Inr r1 \<Rightarrow>
                  (case Participant_Close (chanStore w, dcStore w, pcStore w, participant) of
                     Inl e \<Rightarrow> Inl e
                   | Inr (cs', dcs', pcs', participant') \<Rightarrow>
                       Inr (w\<lparr>rooms := (rooms w)(r := r1), chanStore := cs',
                              dcStore := dcs', pcStore := pcs'\<rparr>, participant')))
        else if state = PeerConnectionStateConnected
        then Inr (w\<lparr>rooms := (rooms w)(r := AddParticipant (rooms w r) participant)\<rparr>, participant)
        else Inr (w, participant))"

definition requestStreamRoom :: "ext \<Rightarrow> ProtoMessage \<Rightarrow> world \<times> stream \<Rightarrow> (world \<times> stream) step" where
  "requestStreamRoom x msgWrapper s =
     (case s of (w, st) \<Rightarrow>
        (case GetClientRequestRoomStream msgWrapper of
           None \<Rightarrow> Continue (w, logMsg ''Could not get ClientRequestRoomStream for stream request'' st)
         | Some (roomName, reqSessionId) \<Rightarrow>
             (let st1 = st\<lparr>currentRoomName := roomName\<rparr>
              in case (if reqSessionId = [] then newULID x else Some reqSessionId) of
                   None \<Rightarrow> Continue (w, logMsg ''Failed to generate session ID'' st1)
                 | Some sessionID \<Rightarrow>
                     (case CreateMessage (clock x) (ProtoClientRequestRoomStream roomName sessionID)
                             ''session-assigned'' None of
                        Inl err \<Rightarrow> Continue (w, logMsg ''Failed to create proto message'' st1)
                      | Inr sesMsg \<Rightarrow>
                          (let st2 = (if sendOK1 x then sendFrame sesMsg True st1
                                      else logMsg ''Failed to send session assignment''
                                             (sendFrame sesMsg False st1))
                           in case (case GetRoomByName w roomName of
                                      None \<Rightarrow> None
                                    | Some r \<Rightarrow>
                                        if \<not> IsOnline (rooms w r) \<or> OwnerID (rooms w r) \<noteq> relayID w
                                        then None else Some r) of
                                None \<Rightarrow>
                                  (case CreateMessage (clock x) (ProtoRaw roomName)
                                          ''request-stream-offline'' None of
                                     Inl err \<Rightarrow> Continue (w, logMsg ''Failed to create proto message'' st2)
                                   | Inr rawMsg \<Rightarrow>
                                       if sendOK2 x then Continue (w, sendFrame rawMsg True st2)
                                       else Continue (w, logMsg ''Failed to send request stream offline message''
                                                           (sendFrame rawMsg False st2)))
                              | Some r \<Rightarrow> serveRequest x roomName sessionID r (w, st2))))))"

definition requestIceCandidate :: "ProtoMessage \<Rightarrow> world \<times> stream \<Rightarrow> (world \<times> stream) step" where
  "requestIceCandidate msgWrapper s =
     (case s of (w, st) \<Rightarrow>
        (case GetIce msgWrapper of
           None \<Rightarrow> Continue (w, logMsg ''Could not GetIce from ice-candidate'' st)
         | Some iceMsgCandidate \<Rightarrow>
             (case iceMsgCandidate of
                None \<Rightarrow> Panic NilDereference
              | Some c \<Rightarrow>
                  (let cand0 = \<lparr>Candidate = rtcCandidate c, SDPMid = SdpMid c,
                                SDPMLineIndex = None,
                                UsernameFragment = rtcUsernameFragment c\<rparr>;
                       cand = (case SdpMLineIndex c of
                                 None \<Rightarrow> cand0
                               | Some idx \<Rightarrow> cand0\<lparr>SDPMLineIndex := Some (ucast idx :: 16 word)\<rparr>)
                   in case AddCandidate (pcStore w, iceHelper st) cand of
                        (pcs', ice') \<Rightarrow> Continue (w\<lparr>pcStore := pcs'\<rparr>, st\<lparr>iceHelper := ice'\<rparr>)))))"

definition requestAnswer :: "ext \<Rightarrow> ProtoMessage \<Rightarrow> world \<times> stream \<Rightarrow> (world \<times> stream) step" where
  "requestAnswer x msgWrapper s =
     (case s of (w, st) \<Rightarrow>
        (case GetSdp msgWrapper of
           None \<Rightarrow> Continue (w, logMsg ''Could not GetSdp from answer'' st)
         | Some answerMsgSdp \<Rightarrow>
             (case answerMsgSdp of
                None \<Rightarrow> Panic NilDereference
              | Some d \<Rightarrow>
                  (let ansSdp = \<lparr>SDP = Sdp d, sdType = NewSDPType (Type d)\<rparr>
                   in if length (currentRoomName st) > 0
                      then (case servedConns w (currentRoomName st) of
                              None \<Rightarrow> Continue (w, st)
                            | Some roomMap \<Rightarrow>
                                (case roomMap (remotePeer st) of
                                   None \<Rightarrow> Continue (w, logMsg ''Received answer without active PeerConnection'' st)
                                 | Some conn \<Rightarrow>
                                     if \<not> setRemoteDescriptionOK x
                                     then Continue (w, logMsg ''Failed to set remote description for answer'' st)
                                     else (case FlushHeldCandidates
                                                  ((pcStore w)(sc_pc conn :=
                                                      SetRemoteDescription (pcStore w (sc_pc conn)) ansSdp),
                                                   iceHelper st) of
                                             (pcs', ice') \<Rightarrow>
                                               Continue (w\<lparr>pcStore := pcs'\<rparr>, st\<lparr>iceHelper := ice'\<rparr>))))
                      else Continue (w, logMsg ''Received answer without active PeerConnection'' st)))))"

definition requestFrame :: "ext \<Rightarrow> ProtoMessage \<Rightarrow> world \<times> stream \<Rightarrow> (world \<times> stream) step" where
  "requestFrame x msgWrapper s =
     (case s of (w, st) \<Rightarrow>
        (case MessageBase msgWrapper of
           None \<Rightarrow> Return (w, (logMsg ''No MessageBase in stream request'' st)\<lparr>streamReset := True\<rparr>)
         | Some mb \<Rightarrow>
             if PayloadType mb = ''request-stream-room'' then requestStreamRoom x msgWrapper (w, st)
             else if PayloadType mb = ''ice-candidate'' then requestIceCandidate msgWrapper (w, st)
             else if PayloadType mb = ''answer'' then requestAnswer x msgWrapper (w, st)
             else Continue (w, st)))"

fun handleStreamRequest :: "recv list \<Rightarrow> world \<times> stream \<Rightarrow> fault + (bool \<times> world \<times> stream)" where
  "handleStreamRequest [] s = Inr (False, s)"
| "handleStreamRequest (Closed # rest) s = Inr (True, s)"
| "handleStreamRequest (Failed # rest) s =
     (case s of (w, st) \<Rightarrow>
        Inr (True, (w, (logMsg ''Failed to receive data'' st)\<lparr>streamReset := True\<rparr>)))"
| "handleStreamRequest (Oversized # rest) s = Inl MakesliceLenOutOfRange"
| "handleStreamRequest (Frame msgWrapper x # rest) s =
     (case requestFrame x msgWrapper s of
        Continue s' \<Rightarrow> handleStreamRequest rest s'
      | Return s' \<Rightarrow> Inr (True, s')
      | Panic e \<Rightarrow> Inl e)"

text \<open>
  Both handlers start with no room, an empty room name and a helper without peer
  connection.
\<close>

definition newStream :: "peer_id \<Rightarrow> stream" where
  "newStream peer = \<lparr>remotePeer = peer, room = None, currentRoomName = [],
     iceHelper = NewICEHelper None, sent = [], streamReset = False, logged = []\<rparr>"

section \<open>Concrete inputs\<close>

text \<open>A bare candidate and a store of new peer connections.\<close>

definition mkCandidate :: "string \<Rightarrow> ICECandidateInit" where
  "mkCandidate s = \<lparr>Candidate = s, SDPMid = None, SDPMLineIndex = None, UsernameFragment = None\<rparr>"

definition pcs0 :: pc_store where
  "pcs0 = (\<lambda>_. newPeerConn)"

text \<open>
  A helper in use: a candidate arrives before any peer connection is attached, then peer
  connection 10 is attached, two candidates arrive, and the engine installs the remote
  description.
\<close>

definition heldRun :: "pc_store \<times> ICEHelper" where
  "heldRun = helperCalls (pcs0, NewICEHelper None)
     [CallAddCandidate (mkCandidate ''candidate:0''),
      CallSetPeerConnection 10,
      CallAddCandidate (mkCandidate ''candidate:1''),
      CallAddCandidate (mkCandidate ''candidate:2''),
      EngineChange (\<lambda>pcs. pcs(10 := SetRemoteDescription (pcs 10) \<lparr>SDP = ''v=0'', sdType = SDPTypeAnswer\<rparr>))]"

text \<open>
  A relay to evaluate the handlers on: room alpha belongs to another relay, room bravo
  is its own and offline, room charlie is its own and online.
\<close>

definition relay0 :: world where
  "relay0 =
     \<lparr>relayID = ''12D3KooRelay'',
      LocalRooms = [(''01ROOMA'', 10), (''01ROOMB'', 11), (''01ROOMC'', 12)],
      rooms = (\<lambda>_. NewRoom [] [] [])
        (10 := NewRoom ''alpha'' ''01ROOMA'' ''12D3KooOther'',
         11 := NewRoom ''bravo'' ''01ROOMB'' ''12D3KooRelay'',
         12 := (NewRoom ''charlie'' ''01ROOMC'' ''12D3KooRelay'')\<lparr>PeerConnection := Some 13\<rparr>),
      pcStore = pcs0,
      dcStore = (\<lambda>_. NewNestriDataChannel),
      chanStore = (\<lambda>_. newChannel 0),
      nextRef = 14,
      servedConns = Map.empty,
      incomingConns = Map.empty,
      madeParticipants = []\<rparr>"

definition ext0 :: ext where
  "ext0 =
     \<lparr>clock = 0, newULID = Some ''01SESSIONNEW'', roomULID = ''01ROOMNEW'',
      participantULID = Some ''01VIEWERNEW'', sendOK1 = True, sendOK2 = True,
      createPeerConnectionOK = True, newTrackAudioOK = True, newTrackVideoOK = True,
      createDataChannelOK = True,
      createOffer = Some \<lparr>SDP = ''v=0'', sdType = SDPTypeOffer\<rparr>,
      createAnswer = Some \<lparr>SDP = ''v=0'', sdType = SDPTypeAnswer\<rparr>,
      setLocalDescriptionOK = True, setRemoteDescriptionOK = True\<rparr>"

definition header :: "string \<Rightarrow> ProtoMessageBase option" where
  "header t = Some \<lparr>PayloadType = t, Latency = None\<rparr>"

definition pushRoomFrame :: "string \<Rightarrow> ProtoMessage" where
  "pushRoomFrame name =
     \<lparr>MessageBase = header ''push-stream-room'', Payload = Some (ProtoServerPushStream name)\<rparr>"

definition requestRoomFrame :: "string \<Rightarrow> string \<Rightarrow> ProtoMessage" where
  "requestRoomFrame name sid =
     \<lparr>MessageBase = header ''request-stream-room'',
      Payload = Some (ProtoClientRequestRoomStream name sid)\<rparr>"

definition offerFrame :: ProtoMessage where
  "offerFrame =
     \<lparr>MessageBase = header ''offer'', Payload = Some (ProtoSDP (Some \<lparr>Sdp = ''v=0'', Type = ''offer''\<rparr>))\<rparr>"

text \<open>An ice-candidate frame whose candidate carries no \<open>SdpMLineIndex\<close>.\<close>

definition iceFrameNoIndex :: ProtoMessage where
  "iceFrameNoIndex =
     \<lparr>MessageBase = header ''ice-candidate'',
      Payload = Some (ProtoICE (Some \<lparr>rtcCandidate = ''candidate:1 1 UDP 2122252543 10.0.0.2 50000 typ host'',
                                       SdpMLineIndex = None, SdpMid = Some ''0'',
                                       rtcUsernameFragment = None\<rparr>))\<rparr>"

text \<open>
  An ice-candidate frame with all its fields, and a push stream on which it arrives
  after the room is bound and before the offer.
\<close>

definition iceFrame :: ProtoMessage where
  "iceFrame =
     \<lparr>MessageBase = header ''ice-candidate'',
      Payload = Some (ProtoICE (Some \<lparr>rtcCandidate = ''candidate:1 1 UDP 2122252543 10.0.0.2 50000 typ host'',
                                       SdpMLineIndex = Some 0, SdpMid = Some ''0'',
                                       rtcUsernameFragment = None\<rparr>))\<rparr>"

definition earlyCandidateRun :: "fault + (bool \<times> world \<times> stream)" where
  "earlyCandidateRun =
     handleStreamPush [Frame (pushRoomFrame ''delta'') ext0, Frame iceFrame ext0, Frame offerFrame ext0]
       (relay0, newStream ''12D3KooProducer'')"

text \<open>The frames the relay answers a request for an unavailable room with.\<close>

definition sessionAssigned :: "string \<Rightarrow> string \<Rightarrow> ProtoMessage" where
  "sessionAssigned name sessionID =
     \<lparr>MessageBase = header ''session-assigned'',
      Payload = Some (ProtoClientRequestRoomStream name sessionID)\<rparr>"

definition requestStreamOffline :: "string \<Rightarrow> ProtoMessage" where
  "requestStreamOffline name =
     \<lparr>MessageBase = header ''request-stream-offline'', Payload = Some (ProtoRaw name)\<rparr>"

text \<open>A decoder and a data channel to evaluate the routing on.\<close>

definition toyUnmarshal :: "byte list \<Rightarrow> io_error + ProtoMessage" where
  "toyUnmarshal d =
     (if d = [1] then Inr \<lparr>MessageBase = Some \<lparr>PayloadType = ''input'', Latency = None\<rparr>, Payload = None\<rparr>
      else if d = [2] then Inr \<lparr>MessageBase = None, Payload = None\<rparr>
      else if d = [3] then Inr \<lparr>MessageBase = Some \<lparr>PayloadType = ''rumble'', Latency = None\<rparr>, Payload = None\<rparr>
      else Inl ErrProto)"

definition inputChannel :: NestriDataChannel where
  "inputChannel = RegisterMessageCallback NewNestriDataChannel ''input'' 1"

text \<open>Concrete rooms, participants and queues used to evaluate the definitions.\<close>

definition viewer :: "ulid \<Rightarrow> chan_ref \<Rightarrow> Participant" where
  "viewer uid q =
     \<lparr>P_ID = uid, SessionID = ''01SESSION'', PeerID = ''12D3KooViewer'',
      P_PeerConnection = None, P_DataChannel = None, VideoTrack = None, AudioTrack = None,
      VideoSequenceNumber = 0, VideoTimestamp = 0, AudioSequenceNumber = 0, AudioTimestamp = 0,
      packetQueue = q, closeOnce = False\<rparr>"

definition alphaRoom :: Room where
  "alphaRoom = AddParticipant (AddParticipant (NewRoom ''alpha'' ''01ROOM'' ''12D3KooRelay'')
     (viewer ''01VIEWERA'' 0)) (viewer ''01VIEWERB'' 1)"

definition fullQueue :: channel where
  "fullQueue = \<lparr>chanCap = 2,
     chanBuf = [\<lparr>kind = RTPCodecTypeAudio, packet = 7\<rparr>, \<lparr>kind = RTPCodecTypeVideo, packet = 8\<rparr>],
     chanClosed = False\<rparr>"

definition fanout0 :: fanout where
  "fanout0 = \<lparr>chans = (\<lambda>_. newChannel packetQueueDepth)(0 := fullQueue),
     wrappers = \<lparr>poolGets = 0, poolPuts = 0\<rparr>, attempts = [], warnings = []\<rparr>"

text \<open>
  Room charlie with two viewers whose connections were reported connected, the wrapper
  pool and log a broadcast starts from, and three schedules of one broadcast of packet 9
  around the moment the first viewer's connection is reported disconnected: the state
  callback runs before the call, after the call, and between the call's load of the
  channel slice and its sends.
\<close>

definition viewerA :: Participant where
  "viewerA = (viewer ''01VIEWERA'' 20)\<lparr>P_PeerConnection := Some 22\<rparr>"

definition viewerB :: Participant where
  "viewerB = (viewer ''01VIEWERB'' 21)\<lparr>P_PeerConnection := Some 23\<rparr>"

definition relay1 :: world where
  "relay1 = relay0\<lparr>chanStore := (\<lambda>_. newChannel packetQueueDepth), nextRef := 24\<rparr>"

definition relay2 :: world where
  "relay2 = relay1\<lparr>rooms := (rooms relay1)
     (12 := AddParticipant (AddParticipant (rooms relay1 12) viewerA) viewerB)\<rparr>"

definition fanoutOf :: "world \<Rightarrow> fanout" where
  "fanoutOf w = \<lparr>chans = chanStore w, wrappers = \<lparr>poolGets = 0, poolPuts = 0\<rparr>,
     attempts = [], warnings = []\<rparr>"

definition disconnectThenBroadcast :: "fault + fanout" where
  "disconnectThenBroadcast =
     (case onConnectionStateChange 12 PeerConnectionStateDisconnected (relay2, viewerA) of
        Inl e \<Rightarrow> Inl e
      | Inr (w, _) \<Rightarrow> BroadcastPacket (rooms w 12) RTPCodecTypeVideo 9 (fanoutOf w))"

definition broadcastThenDisconnect :: "fault + fanout" where
  "broadcastThenDisconnect =
     (case BroadcastPacket (rooms relay2 12) RTPCodecTypeVideo 9 (fanoutOf relay2) of
        Inl e \<Rightarrow> Inl e
      | Inr f \<Rightarrow>
          (case onConnectionStateChange 12 PeerConnectionStateDisconnected
                  (relay2\<lparr>chanStore := chans f\<rparr>, viewerA) of
             Inl e \<Rightarrow> Inl e
           | Inr (w, _) \<Rightarrow> Inr (f\<lparr>chans := chanStore w\<rparr>)))"

definition disconnectDuringBroadcast :: "fault + fanout" where
  "disconnectDuringBroadcast =
     (let channels = participantChannels (rooms relay2 12)
      in case onConnectionStateChange 12 PeerConnectionStateDisconnected (relay2, viewerA) of
           Inl e \<Rightarrow> Inl e
         | Inr (w, _) \<Rightarrow> broadcastTo channels RTPCodecTypeVideo 9 (fanoutOf w))"

section \<open>Properties of the candidate helper\<close>

lemma addHeld_log: "addedCandidates (addHeld p cs) = addedCandidates p @ cs"
  by (induction cs arbitrary: p) (simp_all add: AddICECandidate_def)

lemma deliver_buffers:
  "pc ice = Some p \<Longrightarrow> remoteDescription (pcs p) = None \<Longrightarrow>
   deliver (pcs, ice) cs = (pcs, ice\<lparr>candidates := candidates ice @ cs\<rparr>)"
proof (induction cs arbitrary: ice)
  case Nil
  then show ?case by simp
next
  case (Cons c cs)
  have step: "AddCandidate (pcs, ice) c = (pcs, ice\<lparr>candidates := candidates ice @ [c]\<rparr>)"
    using Cons.prems by (simp add: AddCandidate_def)
  show ?case
    using Cons.IH [of "ice\<lparr>candidates := candidates ice @ [c]\<rparr>"] Cons.prems
    by (simp add: step)
qed

lemma AddCandidate_detached: "pc ice = None \<Longrightarrow> AddCandidate (pcs, ice) c = (pcs, ice)"
  by (simp add: AddCandidate_def)

lemma Flush_empty: "candidates ice = [] \<Longrightarrow> FlushHeldCandidates (pcs, ice) = (pcs, ice)"
  by (simp add: FlushHeldCandidates_def split: option.splits)

lemma Flush_idem: "FlushHeldCandidates (FlushHeldCandidates s) = FlushHeldCandidates s"
  by (cases s) (auto simp: FlushHeldCandidates_def split: option.splits)

text \<open>
  C3, as the code has it. A candidate delivered while a peer connection is attached to
  the helper and its remote description is not yet set is appended to the held list and
  nothing is handed to the peer connection. When the remote description is then installed
  and \<open>FlushHeldCandidates\<close> runs, the peer connection has received every held candidate
  exactly once, in arrival order, the held list is empty, a further flush changes
  nothing, and no other peer connection was touched.
\<close>

theorem held_candidates_applied_once:
  assumes att: "pc ice = Some p" and nord: "remoteDescription (pcs p) = None"
  shows "deliver (pcs, ice) cs = (pcs, ice\<lparr>candidates := candidates ice @ cs\<rparr>)
       \<and> (let s1 = FlushHeldCandidates (installRemote p d (deliver (pcs, ice) cs))
          in addedCandidates (fst s1 p) = addedCandidates (pcs p) @ candidates ice @ cs
           \<and> candidates (snd s1) = []
           \<and> FlushHeldCandidates s1 = s1
           \<and> (\<forall>q. q \<noteq> p \<longrightarrow> fst s1 q = pcs q))"
proof -
  have buf: "deliver (pcs, ice) cs = (pcs, ice\<lparr>candidates := candidates ice @ cs\<rparr>)"
    using att nord by (rule deliver_buffers)
  let ?ice1 = "ice\<lparr>candidates := candidates ice @ cs\<rparr>"
  let ?pcs1 = "pcs(p := SetRemoteDescription (pcs p) d)"
  have inst: "installRemote p d (pcs, ?ice1) = (?pcs1, ?ice1)"
    by (simp add: installRemote_def)
  show ?thesis
  proof (cases "candidates ice @ cs = []")
    case True
    then have "FlushHeldCandidates (?pcs1, ?ice1) = (?pcs1, ?ice1)"
      by (simp add: Flush_empty)
    with True show ?thesis
      unfolding buf inst by (simp add: Flush_empty SetRemoteDescription_def)
  next
    case False
    then have fl: "FlushHeldCandidates (?pcs1, ?ice1) =
        (?pcs1(p := addHeld (?pcs1 p) (candidates ice @ cs)), ?ice1\<lparr>candidates := []\<rparr>)"
      using att by (simp add: FlushHeldCandidates_def)
    show ?thesis
      unfolding buf inst fl by (simp add: Flush_empty addHeld_log SetRemoteDescription_def)
  qed
qed

lemma NewICEHelper_sel: "candidates (NewICEHelper q) = []" "pc (NewICEHelper q) = q"
  by (simp_all add: NewICEHelper_def)

lemma pcs0_sel: "addedCandidates (pcs0 q) = []" "remoteDescription (pcs0 q) = None"
  by (simp_all add: pcs0_def newPeerConn_def)

theorem held_candidates_applied_once_witness:
  "pc (NewICEHelper (Some 0)) = Some 0 \<and> remoteDescription (pcs0 0) = None
   \<and> deliver (pcs0, NewICEHelper (Some 0)) [mkCandidate ''candidate:1'', mkCandidate ''candidate:2'']
       = (pcs0, (NewICEHelper (Some 0))\<lparr>candidates := [mkCandidate ''candidate:1'', mkCandidate ''candidate:2'']\<rparr>)
   \<and> addedCandidates (fst (FlushHeldCandidates (installRemote 0 \<lparr>SDP = ''v=0'', sdType = SDPTypeOffer\<rparr>
         (deliver (pcs0, NewICEHelper (Some 0)) [mkCandidate ''candidate:1'', mkCandidate ''candidate:2'']))) 0)
       = [mkCandidate ''candidate:1'', mkCandidate ''candidate:2'']"
proof -
  have h1: "pc (NewICEHelper (Some 0)) = Some 0" by (simp add: NewICEHelper_def)
  have h2: "remoteDescription (pcs0 0) = None" by (simp add: pcs0_def newPeerConn_def)
  show ?thesis
    using
      held_candidates_applied_once [where ice = "NewICEHelper (Some 0)" and p = 0 and pcs = pcs0
        and cs = "[mkCandidate ''candidate:1'', mkCandidate ''candidate:2'']"
        and d = "\<lparr>SDP = ''v=0'', sdType = SDPTypeOffer\<rparr>", OF h1 h2]
    by (auto simp add: Let_def NewICEHelper_sel pcs0_sel simp del: deliver.simps)
qed

lemma AddCandidate_held:
  "AddCandidate (pcs, ice) c = (pcs', ice') \<Longrightarrow>
   candidates ice = [] \<or> pc ice \<noteq> None \<Longrightarrow>
   candidates ice' = [] \<or> pc ice' \<noteq> None"
  by (auto simp add: AddCandidate_def FlushHeldCandidates_def split: option.splits if_splits)

lemma Flush_held:
  "FlushHeldCandidates (pcs, ice) = (pcs', ice') \<Longrightarrow>
   candidates ice = [] \<or> pc ice \<noteq> None \<Longrightarrow>
   candidates ice' = [] \<and> pc ice' = pc ice"
  by (auto simp add: FlushHeldCandidates_def split: option.splits if_splits)

text \<open>
  Whatever the relay does with a helper, candidates are held only while a peer
  connection is attached: they are appended under \<open>ice.pc != nil\<close> only, and the peer
  connection is never taken away again.
\<close>

lemma helperCalls_held:
  "candidates (snd s) = [] \<or> pc (snd s) \<noteq> None \<Longrightarrow>
   candidates (snd (helperCalls s calls)) = [] \<or> pc (snd (helperCalls s calls)) \<noteq> None"
proof (induction s calls rule: helperCalls.induct)
  case (1 s)
  then show ?case by simp
next
  case (2 s c rest)
  obtain pcs ice where s: "s = (pcs, ice)" by (cases s)
  obtain pcs' ice' where a: "AddCandidate (pcs, ice) c = (pcs', ice')"
    by (cases "AddCandidate (pcs, ice) c")
  have "candidates ice' = [] \<or> pc ice' \<noteq> None"
    using AddCandidate_held [OF a] "2.prems" s by simp
  then show ?case using "2.IH" s a by simp
next
  case (3 s rest)
  obtain pcs ice where s: "s = (pcs, ice)" by (cases s)
  obtain pcs' ice' where a: "FlushHeldCandidates (pcs, ice) = (pcs', ice')"
    by (cases "FlushHeldCandidates (pcs, ice)")
  have "candidates ice' = [] \<or> pc ice' \<noteq> None"
    using Flush_held [OF a] "3.prems" s by simp
  then show ?case using "3.IH" s a by simp
next
  case (4 s p rest)
  then show ?case by (cases s) (simp add: SetPeerConnection_def)
next
  case (5 s g rest)
  then show ?case by (cases s) simp
qed

text \<open>
  C9. Flushing an empty held list changes nothing and applies no candidate. After a
  flush the held list is empty: for every helper of the relay, that is after
  \<open>NewICEHelper\<close> (with or without a peer connection) and any sequence of candidates
  added, flushes, peer connections attached and changes to the peer connections.
  Flushing twice is flushing once. A candidate added once the remote description is set
  goes straight to the peer connection (ahead of any candidates still held, which are
  flushed in the same call) and is not held.
\<close>

theorem flush_idempotent_and_direct_add:
  "(candidates ice = [] \<longrightarrow> FlushHeldCandidates (pcs, ice) = (pcs, ice))
   \<and> candidates (snd (FlushHeldCandidates (helperCalls (pcs', NewICEHelper q) calls))) = []
   \<and> FlushHeldCandidates (FlushHeldCandidates (pcs, ice)) = FlushHeldCandidates (pcs, ice)
   \<and> (pc ice = Some p \<and> remoteDescription (pcs p) \<noteq> None \<longrightarrow>
        candidates (snd (AddCandidate (pcs, ice) c)) = []
      \<and> addedCandidates (fst (AddCandidate (pcs, ice) c) p)
          = addedCandidates (pcs p) @ c # candidates ice)"
proof -
  obtain pcs1 ice1 where r: "helperCalls (pcs', NewICEHelper q) calls = (pcs1, ice1)"
    by (cases "helperCalls (pcs', NewICEHelper q) calls")
  obtain pcs2 ice2 where f: "FlushHeldCandidates (pcs1, ice1) = (pcs2, ice2)"
    by (cases "FlushHeldCandidates (pcs1, ice1)")
  have "candidates (snd (pcs', NewICEHelper q)) = [] \<or> pc (snd (pcs', NewICEHelper q)) \<noteq> None"
    by (simp add: NewICEHelper_def)
  then have "candidates ice1 = [] \<or> pc ice1 \<noteq> None"
    using helperCalls_held [of "(pcs', NewICEHelper q)" calls] r by simp
  then have "candidates ice2 = []"
    using Flush_held [OF f] by simp
  then have cl: "candidates (snd (FlushHeldCandidates (helperCalls (pcs', NewICEHelper q) calls))) = []"
    by (simp add: r f)
  have rest: "(candidates ice = [] \<longrightarrow> FlushHeldCandidates (pcs, ice) = (pcs, ice))
   \<and> FlushHeldCandidates (FlushHeldCandidates (pcs, ice)) = FlushHeldCandidates (pcs, ice)
   \<and> (pc ice = Some p \<and> remoteDescription (pcs p) \<noteq> None \<longrightarrow>
        candidates (snd (AddCandidate (pcs, ice) c)) = []
      \<and> addedCandidates (fst (AddCandidate (pcs, ice) c) p)
          = addedCandidates (pcs p) @ c # candidates ice)"
    by (auto simp: Flush_empty Flush_idem FlushHeldCandidates_def AddCandidate_def addHeld_log
       AddICECandidate_def split: option.splits)
  from cl rest show ?thesis by simp
qed

lemma heldRun_eq:
  "heldRun = (pcs0(10 := SetRemoteDescription (pcs0 10) \<lparr>SDP = ''v=0'', sdType = SDPTypeAnswer\<rparr>),
     \<lparr>candidates = [mkCandidate ''candidate:1'', mkCandidate ''candidate:2''], pc = Some 10\<rparr>)"
  by (simp add: heldRun_def AddCandidate_def NewICEHelper_def SetPeerConnection_def pcs0_def newPeerConn_def)

theorem flush_idempotent_and_direct_add_witness:
  "candidates (NewICEHelper (Some 10)) = []
   \<and> pc (NewICEHelper (Some 10)) = Some 10
   \<and> remoteDescription (fst heldRun 10) \<noteq> None
   \<and> candidates (snd heldRun) = [mkCandidate ''candidate:1'', mkCandidate ''candidate:2'']
   \<and> candidates (snd (FlushHeldCandidates heldRun)) = []
   \<and> addedCandidates (fst (FlushHeldCandidates heldRun) 10)
       = [mkCandidate ''candidate:1'', mkCandidate ''candidate:2'']
   \<and> FlushHeldCandidates (fst heldRun, NewICEHelper (Some 10)) = (fst heldRun, NewICEHelper (Some 10))
   \<and> candidates (snd (AddCandidate (fst heldRun, NewICEHelper (Some 10)) (mkCandidate ''candidate:3''))) = []
   \<and> addedCandidates (fst (AddCandidate (fst heldRun, NewICEHelper (Some 10)) (mkCandidate ''candidate:3'')) 10)
       = [mkCandidate ''candidate:3'']"
proof -
  have a: "addedCandidates (fst (FlushHeldCandidates heldRun) 10)
       = [mkCandidate ''candidate:1'', mkCandidate ''candidate:2'']"
    by (simp add: heldRun_eq FlushHeldCandidates_def AddICECandidate_def SetRemoteDescription_def pcs0_sel)
  show ?thesis
    using flush_idempotent_and_direct_add
      [where ice = "NewICEHelper (Some 10)" and pcs = "fst heldRun" and p = 10
         and c = "mkCandidate ''candidate:3''" and pcs' = pcs0 and q = None
         and calls = "[CallAddCandidate (mkCandidate ''candidate:0''),
           CallSetPeerConnection 10,
           CallAddCandidate (mkCandidate ''candidate:1''),
           CallAddCandidate (mkCandidate ''candidate:2''),
           EngineChange (\<lambda>pcs. pcs(10 := SetRemoteDescription (pcs 10) \<lparr>SDP = ''v=0'', sdType = SDPTypeAnswer\<rparr>))]",
       folded heldRun_def]
      a
    by (simp add: heldRun_eq NewICEHelper_sel SetRemoteDescription_def pcs0_sel)
qed

text \<open>
  The guard \<open>ice.pc != nil\<close> of \<open>FlushHeldCandidates\<close> matters only for a helper
  whose peer connection was taken away while it held candidates, by a call
  \<open>SetPeerConnection(nil)\<close> that the relay does not make: such a flush would leave the
  held list as it is.
\<close>

lemma flush_without_connection_keeps_buffer:
  "candidates (snd (FlushHeldCandidates
      (pcs0, SetPeerConnection (snd (AddCandidate (pcs0, NewICEHelper (Some 0)) (mkCandidate ''candidate:1''))) None)))
   = [mkCandidate ''candidate:1'']"
  by (simp add: FlushHeldCandidates_def AddCandidate_def SetPeerConnection_def NewICEHelper_def
      pcs0_def newPeerConn_def)

section \<open>Properties of the room's fan-out\<close>

lemma trySend_open:
  "\<not> chanClosed (chans f ch) \<Longrightarrow>
   trySend i ch pp f =
     Inr (if length (chanBuf (chans f ch)) < chanCap (chans f ch)
          then f\<lparr>attempts := attempts f @ [(ch, pp)],
                 chans := (chans f)(ch := (chans f ch)\<lparr>chanBuf := chanBuf (chans f ch) @ [pp]\<rparr>)\<rparr>
          else f\<lparr>attempts := attempts f @ [(ch, pp)],
                 warnings := warnings f @ [i],
                 wrappers := poolPut (wrappers f)\<rparr>)"
  by (simp add: trySend_def Let_def)

lemma sum_buf_enqueue:
  assumes "finite S" "c \<in> S"
  shows "(\<Sum>x\<in>S. length (chanBuf ((m(c := (m c)\<lparr>chanBuf := chanBuf (m c) @ [pp]\<rparr>)) x)))
       = Suc (\<Sum>x\<in>S. length (chanBuf (m x)))"
proof -
  have "(\<Sum>x\<in>S. length (chanBuf ((m(c := (m c)\<lparr>chanBuf := chanBuf (m c) @ [pp]\<rparr>)) x)))
      = Suc (length (chanBuf (m c))) + (\<Sum>x\<in>S - {c}. length (chanBuf (m x)))"
    using assms by (simp add: sum.remove [of S c])
  also have "\<dots> = Suc (\<Sum>x\<in>S. length (chanBuf (m x)))"
    using assms by (simp add: sum.remove [of S c])
  finally show ?thesis .
qed

lemma broadcastLoop_ok:
  assumes "\<forall>ch\<in>set chs. \<not> chanClosed (chans f ch)" "finite S" "set chs \<subseteq> S"
  shows "\<exists>f'. broadcastLoop k pkt i chs f = Inr f'
     \<and> attempts f' = attempts f @ map (\<lambda>ch. (ch, \<lparr>kind = k, packet = pkt\<rparr>)) chs
     \<and> poolGets (wrappers f') = poolGets (wrappers f) + length chs
     \<and> poolPuts (wrappers f') + queued S f' = poolPuts (wrappers f) + queued S f + length chs
     \<and> length (warnings f') + poolPuts (wrappers f) = length (warnings f) + poolPuts (wrappers f')
     \<and> (\<forall>ch. chans f' ch = (chans f ch)\<lparr>chanBuf := chanBuf (chans f ch) @
            replicate (min (count_list chs ch) (chanCap (chans f ch) - length (chanBuf (chans f ch))))
              \<lparr>kind = k, packet = pkt\<rparr>\<rparr>)"
  using assms
proof (induction chs arbitrary: f i)
  case Nil
  then show ?case by simp
next
  case (Cons c rest)
  let ?pp = "\<lparr>kind = k, packet = pkt\<rparr>"
  let ?f1 = "f\<lparr>wrappers := poolGet (wrappers f)\<rparr>"
  have opn: "\<not> chanClosed (chans ?f1 c)" using Cons.prems by simp
  define f2 where "f2 = (if length (chanBuf (chans f c)) < chanCap (chans f c)
          then f\<lparr>wrappers := poolGet (wrappers f), attempts := attempts f @ [(c, ?pp)],
                 chans := (chans f)(c := (chans f c)\<lparr>chanBuf := chanBuf (chans f c) @ [?pp]\<rparr>)\<rparr>
          else f\<lparr>attempts := attempts f @ [(c, ?pp)],
                 warnings := warnings f @ [i],
                 wrappers := poolPut (poolGet (wrappers f))\<rparr>)"
  have f2: "trySend i c ?pp ?f1 = Inr f2"
    by (simp add: trySend_open [OF opn] f2_def)
  have open2: "\<forall>ch\<in>set rest. \<not> chanClosed (chans f2 ch)"
    using Cons.prems by (simp add: f2_def)
  have sub2: "set rest \<subseteq> S" using Cons.prems by simp
  have cS: "c \<in> S" using Cons.prems by simp
  obtain f' where f': "broadcastLoop k pkt (Suc i) rest f2 = Inr f'"
    and att: "attempts f' = attempts f2 @ map (\<lambda>ch. (ch, ?pp)) rest"
    and gets: "poolGets (wrappers f') = poolGets (wrappers f2) + length rest"
    and puts: "poolPuts (wrappers f') + queued S f' = poolPuts (wrappers f2) + queued S f2 + length rest"
    and warn: "length (warnings f') + poolPuts (wrappers f2) = length (warnings f2) + poolPuts (wrappers f')"
    and bufs: "\<forall>ch. chans f' ch = (chans f2 ch)\<lparr>chanBuf := chanBuf (chans f2 ch) @
            replicate (min (count_list rest ch) (chanCap (chans f2 ch) - length (chanBuf (chans f2 ch)))) ?pp\<rparr>"
    using Cons.IH [OF open2 \<open>finite S\<close> sub2, of "Suc i"] by blast
  have res: "broadcastLoop k pkt i (c # rest) f = Inr f'"
    using f2 f' by (simp add: Let_def)
  have q2: "poolPuts (wrappers f2) + queued S f2 = Suc (poolPuts (wrappers f) + queued S f)"
    using sum_buf_enqueue [OF \<open>finite S\<close> cS, of "chans f" ?pp]
    by (simp add: f2_def queued_def poolPut_def poolGet_def)
  have w2: "length (warnings f2) + poolPuts (wrappers f) = length (warnings f) + poolPuts (wrappers f2)"
    by (simp add: f2_def poolPut_def poolGet_def)
  have g2: "poolGets (wrappers f2) = Suc (poolGets (wrappers f))"
    by (simp add: f2_def poolPut_def poolGet_def)
  have a2: "attempts f2 = attempts f @ [(c, ?pp)]"
    by (simp add: f2_def)
  have b: "\<forall>ch. chans f' ch = (chans f ch)\<lparr>chanBuf := chanBuf (chans f ch) @
            replicate (min (count_list (c # rest) ch) (chanCap (chans f ch) - length (chanBuf (chans f ch)))) ?pp\<rparr>"
  proof
    fix ch
    show "chans f' ch = (chans f ch)\<lparr>chanBuf := chanBuf (chans f ch) @
            replicate (min (count_list (c # rest) ch) (chanCap (chans f ch) - length (chanBuf (chans f ch)))) ?pp\<rparr>"
    proof (cases "ch = c")
      case False
      then show ?thesis using bufs [rule_format, of ch] by (simp add: f2_def)
    next
      case True
      show ?thesis
      proof (cases "length (chanBuf (chans f c)) < chanCap (chans f c)")
        case room: True
        then have m: "min (Suc (count_list rest c)) (chanCap (chans f c) - length (chanBuf (chans f c)))
            = Suc (min (count_list rest c) (chanCap (chans f c) - Suc (length (chanBuf (chans f c)))))"
          by simp
        show ?thesis using bufs [rule_format, of c] room True
          by (simp add: f2_def m)
      next
        case full: False
        then show ?thesis using bufs [rule_format, of c] True
          by (simp add: f2_def)
      qed
    qed
  qed
  show ?case
    using res att gets puts warn q2 w2 g2 a2 b by simp
qed

text \<open>
  What a call to \<open>BroadcastPacket\<close> does when every queue in the slice it loaded is
  still open while it sends: it returns and has attempted exactly one send per entry of
  the channel slice, in order, each with a wrapper holding \<open>{kind, packet}\<close>; one
  wrapper was taken from the pool per entry; every wrapper taken was either queued or put
  back (with one warning per wrapper put back); each channel received the packet as often
  as it occurs in the slice, up to the room left in its queue, so a full queue drops the
  packet for that participant only and no queue grows beyond its capacity; and with an
  empty slice nothing changes.
\<close>

lemma broadcast_open_queues:
  assumes opn: "\<forall>ch\<in>set (participantChannels r). \<not> chanClosed (chans f ch)"
  shows "\<exists>f'. BroadcastPacket r k pkt f = Inr f'
     \<and> attempts f' = attempts f @ map (\<lambda>ch. (ch, \<lparr>kind = k, packet = pkt\<rparr>)) (participantChannels r)
     \<and> poolGets (wrappers f') = poolGets (wrappers f) + length (participantChannels r)
     \<and> poolPuts (wrappers f') + queued (set (participantChannels r)) f'
         = poolPuts (wrappers f) + queued (set (participantChannels r)) f + length (participantChannels r)
     \<and> length (warnings f') + poolPuts (wrappers f) = length (warnings f) + poolPuts (wrappers f')
     \<and> (\<forall>ch. chans f' ch = (chans f ch)\<lparr>chanBuf := chanBuf (chans f ch) @
            replicate (min (count_list (participantChannels r) ch)
                           (chanCap (chans f ch) - length (chanBuf (chans f ch))))
              \<lparr>kind = k, packet = pkt\<rparr>\<rparr>)
     \<and> (\<forall>ch. length (chanBuf (chans f ch)) \<le> chanCap (chans f ch)
            \<longrightarrow> length (chanBuf (chans f' ch)) \<le> chanCap (chans f' ch))
     \<and> (participantChannels r = [] \<longrightarrow> f' = f)"
proof (cases "participantChannels r = []")
  case True
  then show ?thesis by (simp add: BroadcastPacket_def broadcastTo_def queued_def)
next
  case False
  have bp: "BroadcastPacket r k pkt f = broadcastLoop k pkt 0 (participantChannels r) f"
    using False by (simp add: BroadcastPacket_def broadcastTo_def)
  obtain f' where res: "broadcastLoop k pkt 0 (participantChannels r) f = Inr f'"
    and att: "attempts f' = attempts f @ map (\<lambda>ch. (ch, \<lparr>kind = k, packet = pkt\<rparr>)) (participantChannels r)"
    and gets: "poolGets (wrappers f') = poolGets (wrappers f) + length (participantChannels r)"
    and puts: "poolPuts (wrappers f') + queued (set (participantChannels r)) f'
         = poolPuts (wrappers f) + queued (set (participantChannels r)) f + length (participantChannels r)"
    and warn: "length (warnings f') + poolPuts (wrappers f) = length (warnings f) + poolPuts (wrappers f')"
    and bufs: "\<forall>ch. chans f' ch = (chans f ch)\<lparr>chanBuf := chanBuf (chans f ch) @
            replicate (min (count_list (participantChannels r) ch)
                           (chanCap (chans f ch) - length (chanBuf (chans f ch))))
              \<lparr>kind = k, packet = pkt\<rparr>\<rparr>"
    using broadcastLoop_ok [OF opn, of "set (participantChannels r)" k pkt 0] by auto
  have bound: "\<forall>ch. length (chanBuf (chans f ch)) \<le> chanCap (chans f ch)
            \<longrightarrow> length (chanBuf (chans f' ch)) \<le> chanCap (chans f' ch)"
  proof (intro allI impI)
    fix ch
    assume "length (chanBuf (chans f ch)) \<le> chanCap (chans f ch)"
    then show "length (chanBuf (chans f' ch)) \<le> chanCap (chans f' ch)"
      by (simp add: bufs [rule_format, of ch])
  qed
  show ?thesis
    unfolding bp using res att gets puts warn bufs bound False by simp
qed

lemma alphaRoom_channels: "participantChannels alphaRoom = [0, 1]"
  by (simp add: alphaRoom_def AddParticipant_def NewRoom_def viewer_def Let_def)

lemma broadcast_open_queues_example:
  "participantChannels alphaRoom = [0, 1]
   \<and> \<not> chanClosed (chans fanout0 0) \<and> \<not> chanClosed (chans fanout0 1)
   \<and> (\<exists>f'. BroadcastPacket alphaRoom RTPCodecTypeVideo 9 fanout0 = Inr f'
        \<and> attempts f' = [(0, \<lparr>kind = RTPCodecTypeVideo, packet = 9\<rparr>), (1, \<lparr>kind = RTPCodecTypeVideo, packet = 9\<rparr>)]
        \<and> poolGets (wrappers f') = 2
        \<and> chanBuf (chans f' 0) = chanBuf fullQueue
        \<and> chanBuf (chans f' 1) = [\<lparr>kind = RTPCodecTypeVideo, packet = 9\<rparr>])"
proof -
  have h: "\<forall>ch\<in>set (participantChannels alphaRoom). \<not> chanClosed (chans fanout0 ch)"
    by (simp add: alphaRoom_channels fanout0_def fullQueue_def newChannel_def)
  show ?thesis
    using h broadcast_open_queues [OF h, of RTPCodecTypeVideo 9]
    by (auto simp add: alphaRoom_channels fanout0_def fullQueue_def newChannel_def packetQueueDepth_def)
qed

text \<open>
  C7. For a participant that is not yet in the room (its id is no key of the participant
  map and its queue is not in the channel slice), \<open>AddParticipant\<close> followed by
  \<open>RemoveParticipantByID\<close> with its id returns a room with the channel slice it had
  before (as a multiset, and in fact in the same order) and the participant map it had
  before; the whole room is as before.
\<close>

theorem add_then_remove_restores_room:
  assumes "Participants r (P_ID p) = None"
    and "packetQueue p \<notin> set (participantChannels r)"
  shows "\<exists>r'. RemoveParticipantByID (AddParticipant r p) (P_ID p) = Inr r'
       \<and> mset (participantChannels r') = mset (participantChannels r)
       \<and> Participants r' = Participants r
       \<and> r' = r"
proof -
  have m: "(Participants r)(P_ID p := None) = Participants r"
    by (rule ext) (simp add: assms(1))
  have f: "filter (\<lambda>ch. ch \<noteq> packetQueue p) (participantChannels r) = participantChannels r"
    using assms(2) by (simp add: filter_id_conv) blast
  have "RemoveParticipantByID (AddParticipant r p) (P_ID p) = Inr r"
    by (simp add: RemoveParticipantByID_def AddParticipant_def Let_def m f)
  then show ?thesis by simp
qed

theorem add_then_remove_restores_room_witness:
  "Participants alphaRoom (P_ID (viewer ''01VIEWERC'' 2)) = None
   \<and> packetQueue (viewer ''01VIEWERC'' 2) \<notin> set (participantChannels alphaRoom)
   \<and> (\<exists>r'. RemoveParticipantByID (AddParticipant alphaRoom (viewer ''01VIEWERC'' 2))
               (P_ID (viewer ''01VIEWERC'' 2)) = Inr r'
          \<and> mset (participantChannels r') = mset [0, 1])"
proof -
  have h1: "Participants alphaRoom (P_ID (viewer ''01VIEWERC'' 2)) = None"
    by (simp add: alphaRoom_def AddParticipant_def NewRoom_def viewer_def Let_def)
  have h2: "packetQueue (viewer ''01VIEWERC'' 2) \<notin> set (participantChannels alphaRoom)"
    by (simp add: alphaRoom_channels viewer_def)
  show ?thesis
    using h1 h2 add_then_remove_restores_room [OF h1 h2]
    by (auto simp add: alphaRoom_channels)
qed

lemma trySend_closed:
  "chanClosed (chans f ch) \<Longrightarrow> trySend i ch pp f = Inl SendOnClosedChannel"
  by (simp add: trySend_def Let_def)

lemma NewParticipant_queue:
  "NewParticipant (Some uid) fresh sid peer cs = Some (pt, cs') \<Longrightarrow>
   packetQueue pt = fresh \<and> chanCap (cs' fresh) = 1000 \<and> chanBuf (cs' fresh) = []
   \<and> \<not> chanClosed (cs' fresh)"
  by (auto simp add: NewParticipant_def newChannel_def packetQueueDepth_def)

subsection \<open>A queue that is closed while a broadcast is under way\<close>

lemma trySend_flags:
  "trySend i ch pp f = Inr f' \<Longrightarrow> chanClosed (chans f' c) = chanClosed (chans f c)"
  by (auto simp add: trySend_def Let_def split: if_splits)

text \<open>
  A call that finds a closed queue among the channels it loaded panics at the first
  such queue: the sends on the channels after it do not happen and the call does not
  return.
\<close>

lemma broadcastLoop_closed:
  "\<exists>ch\<in>set chs. chanClosed (chans f ch) \<Longrightarrow>
   broadcastLoop k pkt i chs f = Inl SendOnClosedChannel"
proof (induction chs arbitrary: f i)
  case Nil
  then show ?case by simp
next
  case (Cons c rest)
  let ?f1 = "f\<lparr>wrappers := poolGet (wrappers f)\<rparr>"
  let ?pp = "\<lparr>kind = k, packet = pkt\<rparr>"
  show ?case
  proof (cases "trySend i c ?pp ?f1")
    case (Inl e)
    then have "e = SendOnClosedChannel"
      by (auto simp add: trySend_def Let_def split: if_splits)
    with Inl show ?thesis by (simp add: Let_def)
  next
    case (Inr f2)
    then have opn: "\<not> chanClosed (chans f c)"
      by (auto simp add: trySend_def Let_def split: if_splits)
    have "\<exists>ch\<in>set rest. chanClosed (chans f2 ch)"
      using Cons.prems opn trySend_flags [OF Inr] by auto
    from Cons.IH [OF this] Inr show ?thesis by (simp add: Let_def)
  qed
qed

text \<open>
  Room charlie of \<open>relay2\<close> is what the state callback makes of it when the
  connections of the two viewers are reported connected.
\<close>

lemma relay2_connected:
  "\<exists>w. onConnectionStateChange 12 PeerConnectionStateConnected (relay1, viewerA) = Inr (w, viewerA)
     \<and> onConnectionStateChange 12 PeerConnectionStateConnected (w, viewerB) = Inr (relay2, viewerB)"
  by (simp add: onConnectionStateChange_def relay2_def)

text \<open>
  C1 on the code. \<open>BroadcastPacket\<close> loads the channel slice without a lock and sends
  afterwards, while the state callback of a viewer runs on another goroutine, takes the
  viewer's queue out of the room's slice and then closes it. In room charlie with two
  connected viewers the call loads the slice \<open>[20, 21]\<close>. When the first viewer's
  connection is reported disconnected after the load and before the sends, the call sends
  on the closed queue 20 and panics: it attempts no send on queue 21 and does not return.
  When the callback runs before the call, the call sends to queue 21 only; when it runs
  after the call, both queues were sent the packet.
\<close>

theorem broadcast_panics_on_queue_closed_after_load:
  "participantChannels (rooms relay2 12) = [20, 21]
   \<and> disconnectDuringBroadcast = Inl SendOnClosedChannel
   \<and> (\<exists>f. disconnectThenBroadcast = Inr f
          \<and> attempts f = [(21, \<lparr>kind = RTPCodecTypeVideo, packet = 9\<rparr>)])
   \<and> (\<exists>f. broadcastThenDisconnect = Inr f
          \<and> attempts f = [(20, \<lparr>kind = RTPCodecTypeVideo, packet = 9\<rparr>),
                          (21, \<lparr>kind = RTPCodecTypeVideo, packet = 9\<rparr>)])"
  by (simp add: disconnectDuringBroadcast_def disconnectThenBroadcast_def broadcastThenDisconnect_def
      BroadcastPacket_def broadcastTo_def fanoutOf_def onConnectionStateChange_def
      relay2_def relay1_def relay0_def AddParticipant_def NewRoom_def viewerA_def viewerB_def
      viewer_def Let_def RemoveParticipantByID_def Participant_Close_def closeChan_def newChannel_def
      trySend_def poolGet_def poolPut_def packetQueueDepth_def closePC_def)

section \<open>Properties of the frame encoding\<close>

lemma ucast_low: "ucast (ucast (y::64 word) :: 8 word) = (y :: 64 word)" if "y < 0x80"
proof -
  have "unat y < 128" using that by (simp add: word_less_nat_alt)
  then have "take_bit 8 (unat y) = unat y" by (simp add: take_bit_nat_eq_self)
  then have "unat (ucast (ucast y :: 8 word) :: 64 word) = unat y"
    by (simp add: unsigned_ucast_eq unsigned_take_bit_eq)
  then show ?thesis by (simp add: word_unat_eq_iff)
qed

lemma low_byte_lt: "(ucast (y::64 word) :: 8 word) < 0x80" if "y < 0x80"
proof -
  have "unat y < 128" using that by (simp add: word_less_nat_alt)
  then have "take_bit 8 (unat y) = unat y" by (simp add: take_bit_nat_eq_self)
  then have "unat (ucast y :: 8 word) = unat y"
    by (simp add: unsigned_ucast_eq unsigned_take_bit_eq)
  then show ?thesis using \<open>unat y < 128\<close>
    by (simp add: word_less_nat_alt)
qed

lemma cont_byte_ge: "\<not> ((ucast (y::64 word) :: 8 word) OR 0x80) < 0x80"
  by (simp add: not_less le_word_or1)

lemma cont_byte_payload:
  "(ucast (((ucast (y::64 word) :: 8 word) OR 0x80) AND 0x7f) :: 64 word) = take_bit 7 y"
proof -
  have e1: "(0x80 :: 8 word) = push_bit 7 1" by simp
  have e2: "(0x7f :: 8 word) = mask 7" by (simp add: mask_eq_exp_minus_1)
  have "(ucast (((ucast y :: 8 word) OR push_bit 7 1) AND mask 7) :: 64 word) = take_bit 7 y"
  proof (rule bit_eqI)
    fix n
    show "bit (ucast (((ucast y :: 8 word) OR push_bit 7 1) AND mask 7) :: 64 word) n
        = bit (take_bit 7 y) n"
      by (simp only: bit_word_ucast_iff bit_and_iff bit_or_iff bit_mask_iff bit_push_bit_iff
            bit_1_iff bit_take_bit_iff possible_bit_word) auto
  qed
  then show ?thesis by (simp only: e1 e2)
qed

lemma split7: "take_bit 7 y OR push_bit 7 (drop_bit 7 y) = (y::64 word)"
proof (rule bit_eqI)
  fix n
  show "bit (take_bit 7 y OR push_bit 7 (drop_bit 7 y)) n = bit y n"
  proof (cases "n < 7")
    case True
    then show ?thesis by (simp add: bit_simps)
  next
    case False
    then have e: "7 + (n - 7) = n" by simp
    have "bit y n \<Longrightarrow> n < 64" using bit_imp_le_length [of y n] by simp
    with False e show ?thesis by (simp add: bit_simps) blast
  qed
qed

lemma reassemble:
  "(acc OR push_bit s (take_bit 7 y)) OR push_bit (s + 7) (drop_bit 7 y) = acc OR push_bit s (y::64 word)"
proof -
  have "push_bit (s + 7) (drop_bit 7 y) = push_bit s (push_bit 7 (drop_bit 7 y))"
    by (simp add: push_bit_add add.commute)
  then have "(acc OR push_bit s (take_bit 7 y)) OR push_bit (s + 7) (drop_bit 7 y)
     = acc OR push_bit s (take_bit 7 y OR push_bit 7 (drop_bit 7 y))"
    by (simp add: push_bit_or or.assoc)
  then show ?thesis by (simp add: split7)
qed

lemma drop7_bound:
  assumes "unat (y::64 word) < 2 ^ (64 - 7 * i)" "i \<le> 8"
  shows "unat (drop_bit 7 y) < 2 ^ (64 - 7 * Suc i)"
proof -
  define k where "k = 57 - 7 * i"
  have e1: "64 - 7 * i = k + 7" using assms(2) unfolding k_def by arith
  have e2: "64 - 7 * Suc i = k" unfolding k_def by arith
  have "unat y < 2 ^ (k + 7)" using assms(1) unfolding e1 .
  then have "unat y < 2 ^ k * 128" by (simp add: power_add)
  then have "unat y div 128 < 2 ^ k" by (simp add: less_mult_imp_div_less)
  then have "unat (drop_bit 7 y) < 2 ^ k" by (simp add: drop_bit_eq_div unat_div_distrib)
  then show ?thesis unfolding e2 .
qed

lemma ReadUvarint_PutUvarint_gen:
  "unat y < 2 ^ (64 - 7 * i) \<Longrightarrow> i \<le> 9 \<Longrightarrow>
   ReadUvarintLoop i acc (7 * i) (PutUvarint y @ rest) = Inr (acc OR push_bit (7 * i) y, rest)"
proof (induction y arbitrary: i acc rule: PutUvarint.induct)
  case (1 y)
  show ?case
  proof (cases "y \<ge> 0x80")
    case True
    have i8: "i \<le> 8"
    proof (rule ccontr)
      assume "\<not> i \<le> 8"
      then have "i = 9" using "1.prems" by simp
      then have "unat y < 2" using "1.prems" by simp
      moreover have "128 \<le> unat y" using True by (simp add: word_le_nat_alt)
      ultimately show False by simp
    qed
    have b: "unat (drop_bit 7 y) < 2 ^ (64 - 7 * Suc i)"
      using "1.prems"(1) i8 by (rule drop7_bound)
    have s: "7 * Suc i = 7 * i + 7" by simp
    have i9: "Suc i \<le> 9" using i8 by simp
    have ih: "ReadUvarintLoop (Suc i) (acc OR push_bit (7 * i) (take_bit 7 y)) (7 * i + 7)
          (PutUvarint (drop_bit 7 y) @ rest)
        = Inr ((acc OR push_bit (7 * i) (take_bit 7 y)) OR push_bit (7 * i + 7) (drop_bit 7 y), rest)"
      using "1.IH" [OF True b i9, of "acc OR push_bit (7 * i) (take_bit 7 y)"] unfolding s .
    have p: "PutUvarint y @ rest = (ucast y OR 0x80) # (PutUvarint (drop_bit 7 y) @ rest)"
      using True by (subst PutUvarint.simps) simp
    have step: "ReadUvarintLoop i acc (7 * i) ((ucast y OR 0x80) # (PutUvarint (drop_bit 7 y) @ rest))
        = ReadUvarintLoop (Suc i) (acc OR push_bit (7 * i) (take_bit 7 y)) (7 * i + 7)
            (PutUvarint (drop_bit 7 y) @ rest)"
      using i8 by (simp add: MaxVarintLen64_def cont_byte_ge cont_byte_payload)
    show ?thesis
      unfolding p step ih reassemble ..
  next
    case False
    then have lt: "y < 0x80" by simp
    have p: "PutUvarint y @ rest = ucast y # rest"
      using False by (subst PutUvarint.simps) simp
    have nine: "\<not> (i = 9 \<and> 1 < (ucast y :: 8 word))"
    proof
      assume a: "i = 9 \<and> 1 < (ucast y :: 8 word)"
      then have "unat y < 2" using "1.prems" by simp
      then have "take_bit 8 (unat y) = unat y" by (simp add: take_bit_nat_eq_self)
      then have "unat (ucast y :: 8 word) = unat y"
        by (simp add: unsigned_ucast_eq unsigned_take_bit_eq)
      with \<open>unat y < 2\<close> a show False by (simp add: word_less_nat_alt)
    qed
    have "ReadUvarintLoop i acc (7 * i) (ucast y # rest)
        = Inr (acc OR push_bit (7 * i) (ucast (ucast y :: 8 word)), rest)"
      using "1.prems"(2) nine low_byte_lt [OF lt] by (simp add: MaxVarintLen64_def)
    then show ?thesis
      unfolding p by (simp add: ucast_low [OF lt])
  qed
qed

lemma readUvarint_PutUvarint: "readUvarint (PutUvarint y @ rest) = Inr (y, rest)"
proof -
  have "unat y < 2 ^ (64 - 7 * 0)" using unsigned_less [of y] by simp
  from ReadUvarint_PutUvarint_gen [OF this, of 0 rest] show ?thesis
    by (simp add: readUvarint_def)
qed

lemma frame_received:
  assumes "length data < 2 ^ 63" and "length data \<le> limit"
  shows "ReceiveProto limit unmarshal (PutUvarint (of_nat (length data)) @ data @ rest)
       = Inr (case unmarshal data of Inl err \<Rightarrow> Inl err | Inr msg \<Rightarrow> Inr (msg, rest))"
proof -
  have "length data < 2 ^ 64" using assms(1) by simp
  then have u: "unat (of_nat (length data) :: 64 word) = length data"
    by (simp add: unat_of_nat)
  show ?thesis
    using assms
    by (simp add: ReceiveProto_def readUvarint_PutUvarint u ReadFull_def split: sum.splits)
qed

text \<open>
  A length prefix beyond the allocation limit makes \<open>ReceiveProto\<close> panic before it
  reads anything more, whatever follows the prefix: on 64-bit Linux so for \<open>2 ^ 62\<close>
  and for the largest prefix.
\<close>

lemma ReceiveProto_length_beyond_limit_panics:
  "limit < unat len \<Longrightarrow>
   ReceiveProto limit unmarshal (PutUvarint len @ rest) = Inl MakesliceLenOutOfRange"
  by (simp add: ReceiveProto_def readUvarint_PutUvarint)

lemma ReceiveProto_huge_length_panics:
  "ReceiveProto maxAlloc unmarshal (PutUvarint (2 ^ 62) @ rest) = Inl MakesliceLenOutOfRange"
  "ReceiveProto maxAlloc unmarshal (PutUvarint (- 1) @ rest) = Inl MakesliceLenOutOfRange"
proof -
  have "unat (2 ^ 62 :: 64 word) = 2 ^ 62" by simp
  then show "ReceiveProto maxAlloc unmarshal (PutUvarint (2 ^ 62) @ rest) = Inl MakesliceLenOutOfRange"
    by (intro ReceiveProto_length_beyond_limit_panics) (simp add: maxAlloc_def)
  have "unat (- 1 :: 64 word) = 2 ^ 64 - 1"
    by (simp add: unsigned_minus_1_eq_mask mask_eq_exp_minus_1)
  then show "ReceiveProto maxAlloc unmarshal (PutUvarint (- 1) @ rest) = Inl MakesliceLenOutOfRange"
    by (intro ReceiveProto_length_beyond_limit_panics) (simp add: maxAlloc_def)
qed

text \<open>
  C8. For a message that the protobuf library serialises to \<open>data\<close> and parses back from
  \<open>data\<close> (its own round trip, assumed of the library), \<open>SendProto\<close> on a working
  stream writes the varint of the length followed by \<open>data\<close>, and \<open>ReceiveProto\<close>
  on these bytes (whatever follows them) returns the original message and leaves what
  follows unread; the serialised bytes themselves come back bit for bit. The message
  type is arbitrary, so this covers every payload variant. The serialised message is a
  Go slice: it is shorter than \<open>2 ^ 63\<close> bytes and within the allocation limit of the
  runtime, whatever that limit is.
\<close>

theorem SendProto_ReceiveProto_roundtrip:
  assumes "marshal msg = Inr data" and "unmarshal data = Inr msg"
    and "length data < 2 ^ 63" and "length data \<le> limit" and "\<not> broken bu"
  shows "SendProto marshal msg bu
           = (None, bu\<lparr>written := written bu @ PutUvarint (of_nat (length data)) @ data\<rparr>)
       \<and> ReceiveProto limit unmarshal (PutUvarint (of_nat (length data)) @ data @ rest) = Inr (Inr (msg, rest))
       \<and> ReceiveProto limit Inr (PutUvarint (of_nat (length data)) @ data @ rest) = Inr (Inr (data, rest))"
  using assms frame_received [OF assms(3) assms(4), of unmarshal rest]
    frame_received [OF assms(3) assms(4), of Inr rest]
  by (simp add: SendProto_def writeUvarint_def Write_def Flush_def)

theorem SendProto_ReceiveProto_roundtrip_witness:
  "(Inr :: byte list \<Rightarrow> io_error + byte list) [0x0a, 0x03, 0x61, 0x62, 0x63] = Inr [0x0a, 0x03, 0x61, 0x62, 0x63]
   \<and> length [0x0a, 0x03, 0x61, 0x62, 0x63 :: byte] < 2 ^ 63
   \<and> length [0x0a, 0x03, 0x61, 0x62, 0x63 :: byte] \<le> maxAlloc
   \<and> \<not> broken \<lparr>written = [], broken = False\<rparr>
   \<and> SendProto Inr [0x0a, 0x03, 0x61, 0x62, 0x63 :: byte] \<lparr>written = [], broken = False\<rparr>
        = (None, \<lparr>written = [0x05, 0x0a, 0x03, 0x61, 0x62, 0x63], broken = False\<rparr>)
   \<and> ReceiveProto maxAlloc Inr ([0x05, 0x0a, 0x03, 0x61, 0x62, 0x63] @ [0x07 :: byte])
        = (Inr (Inr ([0x0a, 0x03, 0x61, 0x62, 0x63], [0x07])) :: fault + (io_error + (byte list \<times> byte list)))"
proof -
  have p: "PutUvarint 5 = [0x05]" by (subst PutUvarint.simps) simp
  show ?thesis
    using SendProto_ReceiveProto_roundtrip
      [where marshal = Inr and msg = "[0x0a, 0x03, 0x61, 0x62, 0x63 :: byte]"
         and data = "[0x0a, 0x03, 0x61, 0x62, 0x63 :: byte]" and unmarshal = Inr
         and bu = "\<lparr>written = [], broken = False\<rparr>" and rest = "[0x07]" and limit = maxAlloc]
    by (auto simp add: p maxAlloc_def)
qed

section \<open>Properties of the data channel routing\<close>

text \<open>
  C10. The message handler of a data channel starts at most one callback, and only for a
  binary message that decodes to a frame whose header names a payload type with a
  registered callback; the callback gets the raw message. A string message, a message
  that does not decode, a frame without header and a frame whose payload type has no
  callback start nothing. In every case the data channel (its callbacks, what was sent
  on it) is unchanged, so nothing goes back to the sender. A binary frame with header,
  non-empty payload type and registered callback does start that callback.
\<close>

theorem onMessage_routes_registered_binary_only:
  "(case onMessage unmarshal ndc msg of (ndc', started, errs) \<Rightarrow>
      ndc' = ndc
    \<and> (started = [] \<or> (\<exists>base mb cb. \<not> IsString msg \<and> unmarshal (Data msg) = Inr base
           \<and> MessageBase base = Some mb \<and> callbacks ndc (PayloadType mb) = Some cb
           \<and> started = [(cb, Data msg)]))
    \<and> (IsString msg \<longrightarrow> started = [])
    \<and> ((\<exists>err. unmarshal (Data msg) = Inl err) \<longrightarrow> started = [])
    \<and> ((\<exists>base. unmarshal (Data msg) = Inr base \<and> MessageBase base = None) \<longrightarrow> started = [])
    \<and> ((\<exists>base mb. unmarshal (Data msg) = Inr base \<and> MessageBase base = Some mb
           \<and> callbacks ndc (PayloadType mb) = None) \<longrightarrow> started = [])
    \<and> ((\<exists>base mb cb. \<not> IsString msg \<and> unmarshal (Data msg) = Inr base \<and> MessageBase base = Some mb
           \<and> PayloadType mb \<noteq> [] \<and> callbacks ndc (PayloadType mb) = Some cb)
          \<longrightarrow> (\<exists>cb. started = [(cb, Data msg)])))"
  by (auto simp add: onMessage_def split: sum.splits option.splits)

theorem onMessage_routes_registered_binary_only_witness:
  "onMessage toyUnmarshal inputChannel \<lparr>IsString = False, Data = [1]\<rparr> = (inputChannel, [(1, [1])], [])
   \<and> fst (snd (onMessage toyUnmarshal inputChannel \<lparr>IsString = True, Data = [1]\<rparr>)) = []
   \<and> fst (snd (onMessage toyUnmarshal inputChannel \<lparr>IsString = False, Data = [9]\<rparr>)) = []
   \<and> fst (snd (onMessage toyUnmarshal inputChannel \<lparr>IsString = False, Data = [2]\<rparr>)) = []
   \<and> fst (snd (onMessage toyUnmarshal inputChannel \<lparr>IsString = False, Data = [3]\<rparr>)) = []"
  using onMessage_routes_registered_binary_only [where unmarshal = toyUnmarshal and ndc = inputChannel and msg = "\<lparr>IsString = False, Data = [1]\<rparr>"]
    onMessage_routes_registered_binary_only [where unmarshal = toyUnmarshal and ndc = inputChannel and msg = "\<lparr>IsString = True, Data = [1]\<rparr>"]
    onMessage_routes_registered_binary_only [where unmarshal = toyUnmarshal and ndc = inputChannel and msg = "\<lparr>IsString = False, Data = [9]\<rparr>"]
    onMessage_routes_registered_binary_only [where unmarshal = toyUnmarshal and ndc = inputChannel and msg = "\<lparr>IsString = False, Data = [2]\<rparr>"]
    onMessage_routes_registered_binary_only [where unmarshal = toyUnmarshal and ndc = inputChannel and msg = "\<lparr>IsString = False, Data = [3]\<rparr>"]
  by (simp add: onMessage_def toyUnmarshal_def inputChannel_def RegisterMessageCallback_def
      NewNestriDataChannel_def)

section \<open>Properties of the stream handlers\<close>

lemma CreateMessage_nil:
  "CreateMessage now pl t None = Inr \<lparr>MessageBase = header t, Payload = Some pl\<rparr>"
  by (simp add: CreateMessage_def header_def)

lemma pushAnswer_rooms:
  "\<exists>w' st'. pushAnswer x r p (w, st) = Continue (w', st') \<and> rooms w' = rooms w"
  by (auto simp add: pushAnswer_def CreateMessage_def Let_def split: option.splits)

lemma Room_Close_offline:
  "Room_Close (dcs, pcs, r) = (dcs', pcs', r') \<Longrightarrow> PeerConnection r' = None \<and> DataChannel r' = None"
  by (auto simp add: Room_Close_def Let_def split: option.splits prod.splits)

lemma relay0_rooms:
  "GetRoomByName relay0 ''alpha'' = Some 10"
  "GetRoomByName relay0 ''bravo'' = Some 11"
  "GetRoomByName relay0 ''charlie'' = Some 12"
  "GetRoomByName relay0 ''delta'' = None"
  by (simp_all add: GetRoomByName_def relay0_def NewRoom_def)

lemma relay0_sel:
  "relayID relay0 = ''12D3KooRelay''"
  "OwnerID (rooms relay0 10) = ''12D3KooOther''"
  "OwnerID (rooms relay0 11) = ''12D3KooRelay''"
  "OwnerID (rooms relay0 12) = ''12D3KooRelay''"
  "PeerConnection (rooms relay0 10) = None"
  "PeerConnection (rooms relay0 11) = None"
  "PeerConnection (rooms relay0 12) = Some 13"
  "nextRef relay0 = 14"
  by (simp_all add: relay0_def NewRoom_def)

text \<open>
  C2, as the code has it. When a push-stream-room frame names a room that exists locally
  but is not owned by this relay, or is already online, the relay sends no frame to the
  producer: it logs an error and goes on with the next frame of the stream. The relay
  (its registry, its rooms, its connections) is unchanged and the stream is not reset.
\<close>

theorem push_to_foreign_or_online_room_sends_nothing:
  assumes "MessageBase m = Some mb" and "PayloadType mb = ''push-stream-room''"
    and "GetServerPushStream m = Some name" and "GetRoomByName w name = Some r"
    and "OwnerID (rooms w r) \<noteq> relayID w \<or> IsOnline (rooms w r)"
  shows "\<exists>e. pushFrame x m (w, st) = Continue (w, logMsg e (st\<lparr>room := Some r\<rparr>))
           \<and> sent (logMsg e (st\<lparr>room := Some r\<rparr>)) = sent st
           \<and> streamReset (logMsg e (st\<lparr>room := Some r\<rparr>)) = streamReset st
           \<and> handleStreamPush (Frame m x # rest) (w, st)
               = handleStreamPush rest (w, logMsg e (st\<lparr>room := Some r\<rparr>))"
  using assms
  by (auto simp add: pushFrame_def pushStreamRoom_def Let_def logMsg_def)

theorem push_to_foreign_or_online_room_sends_nothing_witness:
  "MessageBase (pushRoomFrame ''charlie'') = header ''push-stream-room''
   \<and> GetServerPushStream (pushRoomFrame ''charlie'') = Some ''charlie''
   \<and> GetRoomByName relay0 ''charlie'' = Some 12
   \<and> IsOnline (rooms relay0 12)
   \<and> (\<exists>e. pushFrame ext0 (pushRoomFrame ''charlie'') (relay0, newStream ''12D3KooProducer'')
             = Continue (relay0, logMsg e ((newStream ''12D3KooProducer'')\<lparr>room := Some 12\<rparr>))
           \<and> sent (logMsg e ((newStream ''12D3KooProducer'')\<lparr>room := Some 12\<rparr>)) = [])"
proof -
  have h1: "MessageBase (pushRoomFrame ''charlie'') = Some \<lparr>PayloadType = ''push-stream-room'', Latency = None\<rparr>"
    by (simp add: pushRoomFrame_def header_def)
  have h2: "PayloadType \<lparr>PayloadType = ''push-stream-room'', Latency = None\<rparr> = ''push-stream-room''"
    by simp
  have h3: "GetServerPushStream (pushRoomFrame ''charlie'') = Some ''charlie''"
    by (simp add: pushRoomFrame_def GetServerPushStream_def)
  have h4: "GetRoomByName relay0 ''charlie'' = Some 12" by (rule relay0_rooms)
  have on: "IsOnline (rooms relay0 12)" by (simp add: IsOnline_def relay0_sel)
  then have h5: "OwnerID (rooms relay0 12) \<noteq> relayID relay0 \<or> IsOnline (rooms relay0 12)" by simp
  show ?thesis
    using h1 h3 h4 on
      push_to_foreign_or_online_room_sends_nothing [OF h1 h2 h3 h4 h5,
        where x = ext0 and st = "newStream ''12D3KooProducer''" and rest = "[]"]
    by (auto simp add: header_def newStream_def logMsg_def)
qed

text \<open>
  C2 as stated fails: pushing to room alpha, which another relay owns, is answered with
  no frame at all; in particular no push-stream-rejected frame is sent.
\<close>

theorem push_to_foreign_room_gets_no_reply:
  "pushFrame ext0 (pushRoomFrame ''alpha'') (relay0, newStream ''12D3KooProducer'')
     = Continue (relay0, (newStream ''12D3KooProducer'')
         \<lparr>room := Some 10, logged := [''Cannot push a stream to non-owned room'']\<rparr>)
   \<and> sent ((newStream ''12D3KooProducer'')
         \<lparr>room := Some 10, logged := [''Cannot push a stream to non-owned room'']\<rparr>) = []"
  by (simp add: pushFrame_def pushStreamRoom_def pushRoomFrame_def header_def relay0_def
      newStream_def GetServerPushStream_def GetRoomByName_def NewRoom_def logMsg_def Let_def)

text \<open>
  C4. A room is online exactly when its inbound peer connection is set. This holds of
  every room; after \<open>Room.Close\<close> the connection is nil and the room offline; after the
  push handler has handled an offer for its room and the peer connection was created,
  the room holds that connection and is online; and after the push stream has ended the
  handler's room is offline.
\<close>

theorem online_iff_peer_connection:
  "(IsOnline r \<longleftrightarrow> PeerConnection r \<noteq> None)
   \<and> (case Room_Close (dcs, pcs, r) of (dcs', pcs', r') \<Rightarrow>
        (IsOnline r' \<longleftrightarrow> PeerConnection r' \<noteq> None) \<and> \<not> IsOnline r' \<and> PeerConnection r' = None)
   \<and> (room st = Some q \<and> GetSdp m = Some (Some d) \<and> createPeerConnectionOK x \<longrightarrow>
        (\<exists>w' st'. pushOffer x m (w, st) = Continue (w', st')
           \<and> PeerConnection (rooms w' q) = Some (nextRef w)
           \<and> (IsOnline (rooms w' q) \<longleftrightarrow> PeerConnection (rooms w' q) \<noteq> None)
           \<and> IsOnline (rooms w' q)))
   \<and> (room st = Some q \<longrightarrow>
        (case pushCleanup (w, st) of (w', st') \<Rightarrow>
           (IsOnline (rooms w' q) \<longleftrightarrow> PeerConnection (rooms w' q) \<noteq> None) \<and> \<not> IsOnline (rooms w' q)))"
proof (intro conjI impI)
  show "IsOnline r \<longleftrightarrow> PeerConnection r \<noteq> None" by (simp add: IsOnline_def)
next
  show "case Room_Close (dcs, pcs, r) of (dcs', pcs', r') \<Rightarrow>
        (IsOnline r' \<longleftrightarrow> PeerConnection r' \<noteq> None) \<and> \<not> IsOnline r' \<and> PeerConnection r' = None"
    using Room_Close_offline [of dcs pcs r]
    by (auto simp add: IsOnline_def split: prod.splits)
next
  assume a: "room st = Some q \<and> GetSdp m = Some (Some d) \<and> createPeerConnectionOK x"
  let ?p = "nextRef w"
  let ?w1 = "w\<lparr>nextRef := Suc ?p, pcStore := (pcStore w)(?p := newPeerConn),
                rooms := (rooms w)(q := (rooms w q)\<lparr>PeerConnection := Some ?p\<rparr>)\<rparr>"
  let ?st1 = "st\<lparr>iceHelper := SetPeerConnection (iceHelper st) (Some ?p)\<rparr>"
  show "\<exists>w' st'. pushOffer x m (w, st) = Continue (w', st')
           \<and> PeerConnection (rooms w' q) = Some (nextRef w)
           \<and> (IsOnline (rooms w' q) \<longleftrightarrow> PeerConnection (rooms w' q) \<noteq> None)
           \<and> IsOnline (rooms w' q)"
  proof (cases "setRemoteDescriptionOK x")
    case False
    then have "pushOffer x m (w, st)
        = Continue (?w1, logMsg ''Failed to set remote description for pushed stream'' ?st1)"
      using a by (simp add: pushOffer_def Let_def)
    then show ?thesis by (simp add: IsOnline_def)
  next
    case True
    obtain pcs' ice' where fl: "FlushHeldCandidates
        ((pcStore ?w1)(?p := SetRemoteDescription (pcStore ?w1 ?p)
            \<lparr>SDP = Sdp d, sdType = NewSDPType (Type d)\<rparr>), iceHelper ?st1) = (pcs', ice')"
      by (cases "FlushHeldCandidates
        ((pcStore ?w1)(?p := SetRemoteDescription (pcStore ?w1 ?p)
            \<lparr>SDP = Sdp d, sdType = NewSDPType (Type d)\<rparr>), iceHelper ?st1)") auto
    let ?w2 = "?w1\<lparr>pcStore := pcs'\<rparr>"
    let ?st2 = "?st1\<lparr>iceHelper := ice'\<rparr>"
    have po: "pushOffer x m (w, st) = pushAnswer x q ?p (?w2, ?st2)"
      using a True fl by (simp add: pushOffer_def Let_def)
    obtain w' st' where pa: "pushAnswer x q ?p (?w2, ?st2) = Continue (w', st')"
      and rm: "rooms w' = rooms ?w2"
      using pushAnswer_rooms [of x q ?p ?w2 ?st2] by blast
    show ?thesis
      unfolding po pa using rm by (simp add: IsOnline_def)
  qed
next
  assume a: "room st = Some q"
  obtain dcs' pcs' r' where rc: "Room_Close (dcStore w, pcStore w, rooms w q) = (dcs', pcs', r')"
    by (cases "Room_Close (dcStore w, pcStore w, rooms w q)") auto
  show "case pushCleanup (w, st) of (w', st') \<Rightarrow>
           (IsOnline (rooms w' q) \<longleftrightarrow> PeerConnection (rooms w' q) \<noteq> None) \<and> \<not> IsOnline (rooms w' q)"
    using a rc Room_Close_offline [OF rc]
    by (simp add: pushCleanup_def IsOnline_def)
qed

theorem online_iff_peer_connection_witness:
  "room ((newStream ''12D3KooProducer'')\<lparr>room := Some 11\<rparr>) = Some 11
   \<and> GetSdp offerFrame = Some (Some \<lparr>Sdp = ''v=0'', Type = ''offer''\<rparr>)
   \<and> createPeerConnectionOK ext0
   \<and> \<not> IsOnline (rooms relay0 11)
   \<and> (\<exists>w' st'. pushOffer ext0 offerFrame (relay0, (newStream ''12D3KooProducer'')\<lparr>room := Some 11\<rparr>)
                  = Continue (w', st')
         \<and> PeerConnection (rooms w' 11) = Some 14 \<and> IsOnline (rooms w' 11))
   \<and> room ((newStream ''12D3KooProducer'')\<lparr>room := Some 12\<rparr>) = Some 12
   \<and> IsOnline (rooms relay0 12)
   \<and> \<not> IsOnline (rooms (fst (pushCleanup (relay0, (newStream ''12D3KooProducer'')\<lparr>room := Some 12\<rparr>))) 12)"
proof -
  let ?st1 = "(newStream ''12D3KooProducer'')\<lparr>room := Some 11\<rparr>"
  let ?st2 = "(newStream ''12D3KooProducer'')\<lparr>room := Some 12\<rparr>"
  have h1: "room ?st1 = Some 11 \<and> GetSdp offerFrame = Some (Some \<lparr>Sdp = ''v=0'', Type = ''offer''\<rparr>)
      \<and> createPeerConnectionOK ext0"
    by (simp add: offerFrame_def GetSdp_def ext0_def)
  have t1: "\<exists>w' st'. pushOffer ext0 offerFrame (relay0, ?st1) = Continue (w', st')
         \<and> PeerConnection (rooms w' 11) = Some (nextRef relay0)
         \<and> (IsOnline (rooms w' 11) \<longleftrightarrow> PeerConnection (rooms w' 11) \<noteq> None)
         \<and> IsOnline (rooms w' 11)"
    using online_iff_peer_connection
      [where st = ?st1 and q = 11 and m = offerFrame
        and d = "\<lparr>Sdp = ''v=0'', Type = ''offer''\<rparr>" and x = ext0 and w = relay0] h1
    by blast
  have h2: "room ?st2 = Some 12" by simp
  have t2: "case pushCleanup (relay0, ?st2) of (w', st') \<Rightarrow>
           (IsOnline (rooms w' 12) \<longleftrightarrow> PeerConnection (rooms w' 12) \<noteq> None) \<and> \<not> IsOnline (rooms w' 12)"
    by (rule online_iff_peer_connection [where st = ?st2 and q = 12 and w = relay0,
          THEN conjunct2, THEN conjunct2, THEN conjunct2, THEN mp, OF h2])
  have off: "\<not> IsOnline (rooms relay0 11)" and on: "IsOnline (rooms relay0 12)"
    by (simp_all add: IsOnline_def relay0_sel)
  show ?thesis
    using h1 t1 h2 t2 off on by (auto simp add: relay0_sel split: prod.splits)
qed

text \<open>
  C5. When a request-stream-room frame names a room that does not exist, is not online or
  is not owned by this relay, and a session id is at hand (the one of the request, or a
  newly generated one when the request's is empty), the relay hands exactly two frames
  to the stream, in this order: session-assigned with that session id and the room name,
  then request-stream-offline with the room name. The relay itself is unchanged (no
  participant, no peer connection), the stream is not reset, and the handler goes on
  with the next frame.
\<close>

theorem request_for_unavailable_room:
  assumes "MessageBase m = Some mb" and "PayloadType mb = ''request-stream-room''"
    and "GetClientRequestRoomStream m = Some (name, sid)"
    and "(if sid = [] then newULID x else Some sid) = Some sessionID"
    and "GetRoomByName w name = None
       \<or> (\<exists>r. GetRoomByName w name = Some r
              \<and> (\<not> IsOnline (rooms w r) \<or> OwnerID (rooms w r) \<noteq> relayID w))"
  shows "\<exists>st'. requestFrame x m (w, st) = Continue (w, st')
           \<and> map fst (sent st') = map fst (sent st) @ [sessionAssigned name sessionID, requestStreamOffline name]
           \<and> currentRoomName st' = name
           \<and> streamReset st' = streamReset st
           \<and> iceHelper st' = iceHelper st
           \<and> handleStreamRequest (Frame m x # rest) (w, st) = handleStreamRequest rest (w, st')"
proof -
  have avail: "(case GetRoomByName w name of
                  None \<Rightarrow> None
                | Some r \<Rightarrow>
                    if \<not> IsOnline (rooms w r) \<or> OwnerID (rooms w r) \<noteq> relayID w
                    then None else Some r) = None"
    using assms(5) by (auto split: option.splits)
  define st2 where "st2 = (if sendOK1 x
      then sendFrame (sessionAssigned name sessionID) True (st\<lparr>currentRoomName := name\<rparr>)
      else logMsg ''Failed to send session assignment''
             (sendFrame (sessionAssigned name sessionID) False (st\<lparr>currentRoomName := name\<rparr>)))"
  define st3 where "st3 = (if sendOK2 x
      then sendFrame (requestStreamOffline name) True st2
      else logMsg ''Failed to send request stream offline message''
             (sendFrame (requestStreamOffline name) False st2))"
  have rf: "requestFrame x m (w, st) = Continue (w, st3)"
    using assms(1-4) avail
    by (simp add: requestFrame_def requestStreamRoom_def Let_def CreateMessage_nil
        st2_def st3_def sessionAssigned_def requestStreamOffline_def)
  have "map fst (sent st3) = map fst (sent st) @ [sessionAssigned name sessionID, requestStreamOffline name]"
    and "currentRoomName st3 = name" and "streamReset st3 = streamReset st"
    and "iceHelper st3 = iceHelper st"
    by (simp_all add: st3_def st2_def sendFrame_def logMsg_def)
  then show ?thesis using rf by simp
qed

theorem request_for_unavailable_room_witness:
  "MessageBase (requestRoomFrame ''bravo'' []) = header ''request-stream-room''
   \<and> GetClientRequestRoomStream (requestRoomFrame ''bravo'' []) = Some (''bravo'', [])
   \<and> newULID ext0 = Some ''01SESSIONNEW''
   \<and> GetRoomByName relay0 ''bravo'' = Some 11 \<and> \<not> IsOnline (rooms relay0 11)
   \<and> (\<exists>st'. requestFrame ext0 (requestRoomFrame ''bravo'' []) (relay0, newStream ''12D3KooViewer'')
              = Continue (relay0, st')
         \<and> map fst (sent st') = [sessionAssigned ''bravo'' ''01SESSIONNEW'', requestStreamOffline ''bravo''])"
proof -
  have h1: "MessageBase (requestRoomFrame ''bravo'' [])
      = Some \<lparr>PayloadType = ''request-stream-room'', Latency = None\<rparr>"
    by (simp add: requestRoomFrame_def header_def)
  have h2: "PayloadType \<lparr>PayloadType = ''request-stream-room'', Latency = None\<rparr> = ''request-stream-room''"
    by simp
  have h3: "GetClientRequestRoomStream (requestRoomFrame ''bravo'' []) = Some (''bravo'', [])"
    by (simp add: requestRoomFrame_def GetClientRequestRoomStream_def)
  have h4: "(if ([]::string) = [] then newULID ext0 else Some []) = Some ''01SESSIONNEW''"
    by (simp add: ext0_def)
  have off: "\<not> IsOnline (rooms relay0 11)" by (simp add: IsOnline_def relay0_sel)
  have h5: "GetRoomByName relay0 ''bravo'' = None
       \<or> (\<exists>r. GetRoomByName relay0 ''bravo'' = Some r
              \<and> (\<not> IsOnline (rooms relay0 r) \<or> OwnerID (rooms relay0 r) \<noteq> relayID relay0))"
    using off by (simp add: relay0_rooms)
  show ?thesis
    using h1 h3 h4 off relay0_rooms(2)
      request_for_unavailable_room [OF h1 h2 h3 h4 h5,
        where st = "newStream ''12D3KooViewer''" and rest = "[]"]
    by (auto simp add: header_def newStream_def)
qed

lemma relay0_made: "madeParticipants relay0 = []"
  by (simp add: relay0_def)

lemma request_for_online_room_makes_participant:
  "\<exists>w' st'. requestFrame ext0 (requestRoomFrame ''charlie'' []) (relay0, newStream ''12D3KooViewer'')
      = Continue (w', st')
    \<and> map P_ID (madeParticipants w') = [''01VIEWERNEW'']
    \<and> map (PayloadType \<circ> the \<circ> MessageBase \<circ> fst) (sent st') = [''session-assigned'', ''offer'']"
  by (simp add: requestFrame_def requestStreamRoom_def requestRoomFrame_def header_def
      GetClientRequestRoomStream_def relay0_rooms relay0_sel IsOnline_def ext0_def CreateMessage_def
      serveRequest_def serveOffer_def NewParticipant_def SetTrack_def Let_def sendFrame_def newStream_def
      relay0_made)

text \<open>
  C6 on the code. The push handler reads \<open>SdpMLineIndex\<close> of an ice-candidate frame
  through the pointer without a nil check: for the frame \<open>iceFrameNoIndex\<close>, which has
  its header and a candidate but no \<open>SdpMLineIndex\<close>, handling the frame panics and the
  panic leaves the handler, whatever the relay and the stream are. The request handler
  checks the pointer and goes on with the same frame. A frame without header makes the
  push handler log and go on without resetting the stream, while the request handler
  logs, resets the stream and returns.
\<close>

theorem push_handler_panics_on_missing_index:
  "pushFrame x iceFrameNoIndex s = Panic NilDereference
   \<and> handleStreamPush (Frame iceFrameNoIndex x # rest) s = Inl NilDereference
   \<and> (\<exists>s'. requestFrame x iceFrameNoIndex s = Continue s')
   \<and> pushFrame x \<lparr>MessageBase = None, Payload = pl\<rparr> (w, st)
       = Continue (w, logMsg ''No MessageBase in stream push'' st)
   \<and> streamReset (logMsg ''No MessageBase in stream push'' st) = streamReset st
   \<and> requestFrame x \<lparr>MessageBase = None, Payload = pl\<rparr> (w, st)
       = Return (w, (logMsg ''No MessageBase in stream request'' st)\<lparr>streamReset := True\<rparr>)"
  by (cases s) (auto simp add: pushFrame_def pushIceCandidate_def iceFrameNoIndex_def header_def GetIce_def
      requestFrame_def requestIceCandidate_def logMsg_def Let_def split: prod.splits)

section \<open>The candidate helper of a stream handler\<close>

text \<open>
  The stream handlers keep the helper as the calls above do: on every stream, whatever
  frames arrive, candidates are held only while a peer connection is attached, so a flush
  leaves nothing held.
\<close>

lemma logMsg_ice: "iceHelper (logMsg m st) = iceHelper st"
  by (simp add: logMsg_def)

lemma sendFrame_ice: "iceHelper (sendFrame m ok st) = iceHelper st"
  by (simp add: sendFrame_def)

lemma pushStreamOK_ice:
  "pushStreamOK x n (w, st) = Continue (w', st') \<or> pushStreamOK x n (w, st) = Return (w', st')
   \<Longrightarrow> iceHelper st' = iceHelper st"
  by (auto simp add: pushStreamOK_def CreateMessage_def Let_def logMsg_ice sendFrame_ice split: if_splits)

lemma pushStreamRoom_ice:
  "pushStreamRoom x m (w, st) = Continue (w', st') \<or> pushStreamRoom x m (w, st) = Return (w', st')
   \<Longrightarrow> iceHelper st' = iceHelper st"
  by (auto simp add: pushStreamRoom_def Let_def logMsg_ice
      dest!: pushStreamOK_ice [OF disjI1] pushStreamOK_ice [OF disjI2]
      split: option.splits if_splits prod.splits)

lemma pushIceCandidate_held:
  assumes "pushIceCandidate m (w, st) = Continue (w', st') \<or> pushIceCandidate m (w, st) = Return (w', st')"
    and "candidates (iceHelper st) = [] \<or> pc (iceHelper st) \<noteq> None"
  shows "candidates (iceHelper st') = [] \<or> pc (iceHelper st') \<noteq> None"
  using assms
  by (auto simp add: pushIceCandidate_def Let_def logMsg_ice
      split: option.splits prod.splits dest: AddCandidate_held)

lemma pushAnswer_ice:
  "pushAnswer x r p (w, st) = Continue (w', st') \<or> pushAnswer x r p (w, st) = Return (w', st')
   \<Longrightarrow> iceHelper st' = iceHelper st"
  by (auto simp add: pushAnswer_def CreateMessage_def Let_def logMsg_ice sendFrame_ice
      split: option.splits if_splits)

lemma pushOffer_held:
  assumes "pushOffer x m (w, st) = Continue (w', st') \<or> pushOffer x m (w, st) = Return (w', st')"
    and "candidates (iceHelper st) = [] \<or> pc (iceHelper st) \<noteq> None"
  shows "candidates (iceHelper st') = [] \<or> pc (iceHelper st') \<noteq> None"
  using assms
  by (auto simp add: pushOffer_def Let_def logMsg_ice SetPeerConnection_def
      split: option.splits prod.splits if_splits
      dest!: pushAnswer_ice [OF disjI1] pushAnswer_ice [OF disjI2] dest: Flush_held)

lemma pushFrame_held:
  assumes "pushFrame x m (w, st) = Continue (w', st') \<or> pushFrame x m (w, st) = Return (w', st')"
    and "candidates (iceHelper st) = [] \<or> pc (iceHelper st) \<noteq> None"
  shows "candidates (iceHelper st') = [] \<or> pc (iceHelper st') \<noteq> None"
  using assms pushStreamRoom_ice [of x m w st w' st'] pushIceCandidate_held [of m w st w' st']
    pushOffer_held [of x m w st w' st']
  by (auto simp add: pushFrame_def logMsg_ice split: option.splits if_splits)

lemma pushCleanup_ice: "pushCleanup (w, st) = (w', st') \<Longrightarrow> st' = st"
  by (auto simp add: pushCleanup_def split: option.splits prod.splits)

lemma handleStreamPush_held:
  "handleStreamPush frames (w, st) = Inr (b, w', st') \<Longrightarrow>
   candidates (iceHelper st) = [] \<or> pc (iceHelper st) \<noteq> None \<Longrightarrow>
   candidates (iceHelper st') = [] \<or> pc (iceHelper st') \<noteq> None"
proof (induction frames "(w, st)" arbitrary: w st rule: handleStreamPush.induct)
  case 1
  then show ?case by simp
next
  case (2 rest)
  then show ?case by (auto dest: pushCleanup_ice)
next
  case (3 rest)
  then show ?case by (auto simp add: logMsg_ice dest!: pushCleanup_ice)
next
  case (4 rest)
  then show ?case by simp
next
  case (5 msgWrapper x rest)
  show ?case
  proof (cases "pushFrame x msgWrapper (w, st)")
    case (Continue s1)
    obtain w1 st1 where s1: "s1 = (w1, st1)" by (cases s1)
    have i1: "candidates (iceHelper st1) = [] \<or> pc (iceHelper st1) \<noteq> None"
      using pushFrame_held [of x msgWrapper w st w1 st1] Continue s1 "5.prems"(2) by simp
    have c: "pushFrame x msgWrapper (w, st) = Continue (w1, st1)" using Continue s1 by simp
    have r: "handleStreamPush rest (w1, st1) = Inr (b, w', st')" using "5.prems"(1) c by simp
    show ?thesis by (rule "5.hyps" [OF c r i1])
  next
    case (Return s1)
    obtain w1 st1 where s1: "s1 = (w1, st1)" by (cases s1)
    have i1: "candidates (iceHelper st1) = [] \<or> pc (iceHelper st1) \<noteq> None"
      using pushFrame_held [of x msgWrapper w st w1 st1] Return s1 "5.prems"(2) by simp
    then show ?thesis using "5.prems"(1) Return s1 by simp
  next
    case (Panic e)
    then show ?thesis using "5.prems"(1) by simp
  qed
qed

lemma serveOffer_ice:
  "serveOffer x n p pt (w, st) = Continue (w', st') \<or> serveOffer x n p pt (w, st) = Return (w', st')
   \<Longrightarrow> iceHelper st' = iceHelper st"
  by (auto simp add: serveOffer_def CreateMessage_def Let_def logMsg_ice sendFrame_ice
      split: option.splits if_splits)

lemma serveRequest_held:
  assumes "serveRequest x n sid r (w, st) = Continue (w', st') \<or> serveRequest x n sid r (w, st) = Return (w', st')"
    and "candidates (iceHelper st) = [] \<or> pc (iceHelper st) \<noteq> None"
  shows "candidates (iceHelper st') = [] \<or> pc (iceHelper st') \<noteq> None"
  using assms
  by (auto simp add: serveRequest_def Let_def logMsg_ice SetPeerConnection_def
      split: option.splits prod.splits if_splits sum.splits
      dest!: serveOffer_ice [OF disjI1] serveOffer_ice [OF disjI2])

lemma requestStreamRoom_held:
  assumes "requestStreamRoom x m (w, st) = Continue (w', st') \<or> requestStreamRoom x m (w, st) = Return (w', st')"
    and "candidates (iceHelper st) = [] \<or> pc (iceHelper st) \<noteq> None"
  shows "candidates (iceHelper st') = [] \<or> pc (iceHelper st') \<noteq> None"
proof -
  have "iceHelper st' = iceHelper st
     \<or> (\<exists>sid r st2. iceHelper st2 = iceHelper st
          \<and> (serveRequest x (fst (the (GetClientRequestRoomStream m))) sid r (w, st2) = Continue (w', st')
             \<or> serveRequest x (fst (the (GetClientRequestRoomStream m))) sid r (w, st2) = Return (w', st')))"
    using assms(1)
    by (simp add: requestStreamRoom_def CreateMessage_def Let_def split: option.splits prod.splits if_splits)
       (auto simp add: logMsg_ice sendFrame_ice intro!: exI [where x = "sendFrame _ _ _"] exI [where x = "logMsg _ _"])
  then show ?thesis
    using assms(2) serveRequest_held by metis
qed

lemma requestIceCandidate_held:
  assumes "requestIceCandidate m (w, st) = Continue (w', st') \<or> requestIceCandidate m (w, st) = Return (w', st')"
    and "candidates (iceHelper st) = [] \<or> pc (iceHelper st) \<noteq> None"
  shows "candidates (iceHelper st') = [] \<or> pc (iceHelper st') \<noteq> None"
  using assms
  by (auto simp add: requestIceCandidate_def Let_def logMsg_ice
      split: option.splits prod.splits dest: AddCandidate_held)

lemma requestAnswer_held:
  assumes "requestAnswer x m (w, st) = Continue (w', st') \<or> requestAnswer x m (w, st) = Return (w', st')"
    and "candidates (iceHelper st) = [] \<or> pc (iceHelper st) \<noteq> None"
  shows "candidates (iceHelper st') = [] \<or> pc (iceHelper st') \<noteq> None"
proof -
  have "iceHelper st' = iceHelper st
     \<or> (\<exists>pcs pcs'. FlushHeldCandidates (pcs, iceHelper st) = (pcs', iceHelper st'))"
    using assms(1)
    by (simp add: requestAnswer_def Let_def split: option.splits prod.splits if_splits)
       (auto simp add: logMsg_ice)
  then show ?thesis
    using assms(2) Flush_held by metis
qed

lemma requestFrame_held:
  assumes run: "requestFrame x m (w, st) = Continue (w', st') \<or> requestFrame x m (w, st) = Return (w', st')"
    and inv: "candidates (iceHelper st) = [] \<or> pc (iceHelper st) \<noteq> None"
  shows "candidates (iceHelper st') = [] \<or> pc (iceHelper st') \<noteq> None"
proof (cases "MessageBase m")
  case None
  then have "iceHelper st' = iceHelper st"
    using run by (auto simp add: requestFrame_def logMsg_ice)
  then show ?thesis using inv by simp
next
  case (Some mb)
  consider (room) "PayloadType mb = ''request-stream-room''"
    | (ice) "PayloadType mb \<noteq> ''request-stream-room''" "PayloadType mb = ''ice-candidate''"
    | (answer) "PayloadType mb \<noteq> ''request-stream-room''" "PayloadType mb \<noteq> ''ice-candidate''"
        "PayloadType mb = ''answer''"
    | (other) "PayloadType mb \<noteq> ''request-stream-room''" "PayloadType mb \<noteq> ''ice-candidate''"
        "PayloadType mb \<noteq> ''answer''"
    by blast
  then show ?thesis
  proof cases
    case room
    then have "requestFrame x m (w, st) = requestStreamRoom x m (w, st)"
      using Some by (simp add: requestFrame_def)
    then show ?thesis using run inv requestStreamRoom_held [of x m w st w' st'] by simp
  next
    case ice
    then have "requestFrame x m (w, st) = requestIceCandidate m (w, st)"
      using Some by (simp add: requestFrame_def)
    then show ?thesis using run inv requestIceCandidate_held [of m w st w' st'] by simp
  next
    case answer
    then have "requestFrame x m (w, st) = requestAnswer x m (w, st)"
      using Some by (simp add: requestFrame_def)
    then show ?thesis using run inv requestAnswer_held [of x m w st w' st'] by simp
  next
    case other
    then have "requestFrame x m (w, st) = Continue (w, st)"
      using Some by (simp add: requestFrame_def)
    then show ?thesis using run inv by simp
  qed
qed

lemma handleStreamRequest_held:
  "handleStreamRequest frames (w, st) = Inr (b, w', st') \<Longrightarrow>
   candidates (iceHelper st) = [] \<or> pc (iceHelper st) \<noteq> None \<Longrightarrow>
   candidates (iceHelper st') = [] \<or> pc (iceHelper st') \<noteq> None"
proof (induction frames "(w, st)" arbitrary: w st rule: handleStreamRequest.induct)
  case 1
  then show ?case by simp
next
  case (2 rest)
  then show ?case by auto
next
  case (3 rest)
  then show ?case by (auto simp add: logMsg_ice)
next
  case (4 rest)
  then show ?case by simp
next
  case (5 msgWrapper x rest)
  show ?case
  proof (cases "requestFrame x msgWrapper (w, st)")
    case (Continue s1)
    obtain w1 st1 where s1: "s1 = (w1, st1)" by (cases s1)
    have i1: "candidates (iceHelper st1) = [] \<or> pc (iceHelper st1) \<noteq> None"
      using requestFrame_held [of x msgWrapper w st w1 st1] Continue s1 "5.prems"(2) by simp
    have c: "requestFrame x msgWrapper (w, st) = Continue (w1, st1)" using Continue s1 by simp
    have r: "handleStreamRequest rest (w1, st1) = Inr (b, w', st')" using "5.prems"(1) c by simp
    show ?thesis by (rule "5.hyps" [OF c r i1])
  next
    case (Return s1)
    obtain w1 st1 where s1: "s1 = (w1, st1)" by (cases s1)
    have i1: "candidates (iceHelper st1) = [] \<or> pc (iceHelper st1) \<noteq> None"
      using requestFrame_held [of x msgWrapper w st w1 st1] Return s1 "5.prems"(2) by simp
    then show ?thesis using "5.prems"(1) Return s1 by simp
  next
    case (Panic e)
    then show ?thesis using "5.prems"(1) by simp
  qed
qed

lemma handlers_flush_clears:
  assumes "handleStreamPush frames (w, newStream peer) = Inr (b, w', st')
         \<or> handleStreamRequest frames (w, newStream peer) = Inr (b, w', st')"
  shows "candidates (snd (FlushHeldCandidates (pcs, iceHelper st'))) = []"
proof -
  have i0: "candidates (iceHelper (newStream peer)) = [] \<or> pc (iceHelper (newStream peer)) \<noteq> None"
    by (simp add: newStream_def NewICEHelper_def)
  have "candidates (iceHelper st') = [] \<or> pc (iceHelper st') \<noteq> None"
    using assms
  proof
    assume "handleStreamPush frames (w, newStream peer) = Inr (b, w', st')"
    then show ?thesis using i0 by (rule handleStreamPush_held)
  next
    assume "handleStreamRequest frames (w, newStream peer) = Inr (b, w', st')"
    then show ?thesis using i0 by (rule handleStreamRequest_held)
  qed
  then show ?thesis
    by (cases "FlushHeldCandidates (pcs, iceHelper st')") (auto dest: Flush_held)
qed

section \<open>A candidate that arrives before the offer\<close>

lemma push_new_room_bound:
  "pushFrame ext0 (pushRoomFrame ''delta'') (relay0, newStream ''12D3KooProducer'')
   = Continue (fst (CreateRoom relay0 ''01ROOMNEW'' ''delta''),
       sendFrame \<lparr>MessageBase = header ''push-stream-ok'', Payload = Some (ProtoServerPushStream ''delta'')\<rparr> True
         ((newStream ''12D3KooProducer'')\<lparr>room := Some 14\<rparr>))"
  by (simp add: pushFrame_def pushStreamRoom_def pushStreamOK_def pushRoomFrame_def header_def
      GetServerPushStream_def relay0_rooms CreateRoom_def relay0_sel Let_def CreateMessage_def ext0_def)

lemma push_candidate_without_connection:
  "iceHelper st = NewICEHelper None \<Longrightarrow> pushFrame ext0 iceFrame (w, st) = Continue (w, st)"
  by (simp add: pushFrame_def pushIceCandidate_def iceFrame_def header_def GetIce_def Let_def
      AddCandidate_def NewICEHelper_def)

text \<open>
  C3 as stated fails: both stream handlers build the helper with no peer connection, and
  a candidate delivered to such a helper is neither held nor applied. On the push stream
  of \<open>earlyCandidateRun\<close> the candidate arrives before the offer: the run ends with the
  remote description installed on the new peer connection, which has received no
  candidate, and with nothing held.
\<close>

theorem candidate_without_connection_is_dropped:
  "AddCandidate (pcs0, NewICEHelper None) (mkCandidate ''candidate:1'') = (pcs0, NewICEHelper None)
   \<and> \<not> isl earlyCandidateRun
   \<and> remoteDescription (pcStore (fst (snd (projr earlyCandidateRun))) 15) \<noteq> None
   \<and> addedCandidates (pcStore (fst (snd (projr earlyCandidateRun))) 15) = []
   \<and> candidates (iceHelper (snd (snd (projr earlyCandidateRun)))) = []"
proof -
  define w1 where "w1 = fst (CreateRoom relay0 ''01ROOMNEW'' ''delta'')"
  define st1 where "st1 = sendFrame \<lparr>MessageBase = header ''push-stream-ok'',
      Payload = Some (ProtoServerPushStream ''delta'')\<rparr> True
         ((newStream ''12D3KooProducer'')\<lparr>room := Some 14\<rparr>)"
  have r1: "pushFrame ext0 (pushRoomFrame ''delta'') (relay0, newStream ''12D3KooProducer'')
      = Continue (w1, st1)"
    unfolding w1_def st1_def by (rule push_new_room_bound)
  have r2: "pushFrame ext0 iceFrame (w1, st1) = Continue (w1, st1)"
    by (rule push_candidate_without_connection) (simp add: st1_def sendFrame_def newStream_def)
  have sel: "room st1 = Some 14" "iceHelper st1 = NewICEHelper None" "nextRef w1 = 15"
    by (simp_all add: st1_def w1_def sendFrame_def newStream_def CreateRoom_def Let_def relay0_sel)
  have r3: "\<exists>w3 st3. pushFrame ext0 offerFrame (w1, st1) = Continue (w3, st3)
      \<and> remoteDescription (pcStore w3 15) \<noteq> None
      \<and> addedCandidates (pcStore w3 15) = []
      \<and> candidates (iceHelper st3) = []"
    by (simp add: pushFrame_def pushOffer_def pushAnswer_def offerFrame_def header_def GetSdp_def
       ext0_def sel Let_def NewICEHelper_def SetPeerConnection_def FlushHeldCandidates_def
       CreateMessage_def newPeerConn_def SetRemoteDescription_def SetLocalDescription_def
       sendFrame_def)
  then obtain w3 st3 where r3': "pushFrame ext0 offerFrame (w1, st1) = Continue (w3, st3)"
    and p: "remoteDescription (pcStore w3 15) \<noteq> None" "addedCandidates (pcStore w3 15) = []"
      "candidates (iceHelper st3) = []"
    by blast
  have e: "earlyCandidateRun = Inr (False, w3, st3)"
    by (simp add: earlyCandidateRun_def r1 r2 r3')
  have a: "AddCandidate (pcs0, NewICEHelper None) (mkCandidate ''candidate:1'')
      = (pcs0, NewICEHelper None)"
    by (simp add: AddCandidate_def NewICEHelper_def)
  show ?thesis unfolding e using p a by simp
qed

end
